theory Spec2Isabelle
  imports Complex_Main "HOL-Library.Word"
begin

section \<open>The template mapping engine of the quote manager\<close>

text \<open>
  This theory embeds \<^verbatim>\<open>server/src/services/file-parser.ts\<close> (class
  \<^verbatim>\<open>FileParser\<close>): the spreadsheet parser \<^verbatim>\<open>parseExcel\<close>, the mapping engine
  \<^verbatim>\<open>applyTemplate\<close> with its free-text branch \<^verbatim>\<open>applyPdfTemplate\<close>, the column
  letter conversion \<^verbatim>\<open>excelColToIndex\<close> and the coercion \<^verbatim>\<open>convertDataType\<close>.
  Exceptions are values of a sum type, the two nested \<^verbatim>\<open>for\<close> loops are folds over
  the column mappings and over the row indices, numbers are doubles, and an object is its
  own properties together with its prototype.
\<close>

subsection \<open>Strings and values of the language\<close>

text \<open>
  A JavaScript string is a sequence of UTF-16 code units; \<^verbatim>\<open>charCodeAt\<close> reads one.
  \<open>ustr\<close> writes a string of the Latin-1 range; the Korean message texts of the source are
  given by their code units.
\<close>

type_synonym jschar = "16 word"
type_synonym jsstring = "jschar list"

definition ustr :: "string \<Rightarrow> jsstring" where
  "ustr s = map of_char s"

text \<open>\<^verbatim>\<open>String.prototype.includes\<close>: the needle occurs as a contiguous run.\<close>

fun str_includes :: "jsstring \<Rightarrow> jsstring \<Rightarrow> bool" where
  "str_includes [] needle = (needle = [])"
| "str_includes (c # cs) needle =
     (take (length needle) (c # cs) = needle \<or> str_includes cs needle)"

text \<open>
  A number is an IEEE double: one of the three special values, or \<open>Fin q\<close> for the double
  of value \<open>q\<close>. Only \<^verbatim>\<open>excelColToIndex\<close> computes with numbers; its arithmetic rounds, as
  written out below.
\<close>

datatype jsnum = NaN | PosInf | NegInf | Fin rat

text \<open>
  The primitive values: what a parsed cell holds (the parsers produce strings, numbers and
  booleans; a hole of a sparse row reads as \<^verbatim>\<open>undefined\<close>) and what \<^verbatim>\<open>convertDataType\<close>
  returns.
\<close>

datatype jsprim = JUndefined | JNull | JBool bool | JNum jsnum | JStr jsstring

text \<open>
  Reading a property can also give an object of the standard library, inherited from a
  prototype: \<^verbatim>\<open>Object.prototype\<close> or \<^verbatim>\<open>Array.prototype\<close> itself (under the key
  \<^verbatim>\<open>__proto__\<close>) or one of their members, which are functions (\<^verbatim>\<open>constructor\<close>,
  \<^verbatim>\<open>toString\<close>, ...).
\<close>

datatype builtin = ObjectPrototype | ArrayPrototype | ObjectMember jsstring | ArrayMember jsstring

datatype jsval = Primitive jsprim | Builtin builtin

text \<open>Truthiness, as \<^verbatim>\<open>||\<close>, \<^verbatim>\<open>&&\<close> and \<^verbatim>\<open>!\<close> test it; every object is truthy.\<close>

fun truthy :: "jsval \<Rightarrow> bool" where
  "truthy (Primitive JUndefined) = False"
| "truthy (Primitive JNull) = False"
| "truthy (Primitive (JBool b)) = b"
| "truthy (Primitive (JNum n)) = (n \<noteq> NaN \<and> n \<noteq> Fin 0)"
| "truthy (Primitive (JStr s)) = (s \<noteq> [])"
| "truthy (Builtin b) = True"

text \<open>An exception is the constructor that made it and its \<^verbatim>\<open>message\<close>.\<close>

datatype js_error = Error jsstring | TypeError jsstring | SyntaxError jsstring

fun error_message :: "js_error \<Rightarrow> jsstring" where
  "error_message (Error m) = m"
| "error_message (TypeError m) = m"
| "error_message (SyntaxError m) = m"

text \<open>
  What the code asks of the language runtime and is not written in the repository:
  \<^item> \<open>StringToNumber\<close>: \<^verbatim>\<open>Number(s)\<close> on a string;
  \<^item> \<open>NumberToString\<close>: \<^verbatim>\<open>String(n)\<close> on a number, also the property key a number makes;
  \<^item> \<open>BuiltinToString\<close>, \<open>BuiltinToNumber\<close>: \<^verbatim>\<open>String(o)\<close> and \<^verbatim>\<open>Number(o)\<close> on an object
    of the standard library;
  \<^item> \<open>DateToISO\<close>: \<^verbatim>\<open>new Date(v)\<close> followed by \<^verbatim>\<open>toISOString()\<close>, \<open>None\<close> when the
    time value is \<^verbatim>\<open>NaN\<close>;
  \<^item> \<open>RegExpError\<close>: the exception of \<^verbatim>\<open>new RegExp(pattern, 'i')\<close>, if it throws;
  \<^item> \<open>StringMatch\<close>: \<^verbatim>\<open>text.match(new RegExp(pattern, 'i'))\<close>: \<open>None\<close> for \<^verbatim>\<open>null\<close>,
    otherwise the match array (the whole match, then the capture groups, \<open>None\<close> for a
    group that did not take part);
  \<^item> \<open>ObjectPrototypeNames\<close>, \<open>ArrayPrototypeNames\<close>: the names of the members of
    \<^verbatim>\<open>Object.prototype\<close> (other than the accessor \<^verbatim>\<open>__proto__\<close>) and of
    \<^verbatim>\<open>Array.prototype\<close> (other than \<^verbatim>\<open>length\<close>); they are writable function properties.
  The functions of the engine take the runtime as their first argument, and the theorems
  hold for every runtime.
\<close>

record runtime =
  StringToNumber :: "jsstring \<Rightarrow> jsnum"
  NumberToString :: "jsnum \<Rightarrow> jsstring"
  BuiltinToString :: "builtin \<Rightarrow> jsstring"
  BuiltinToNumber :: "builtin \<Rightarrow> jsnum"
  DateToISO :: "jsval \<Rightarrow> jsstring option"
  RegExpError :: "jsstring \<Rightarrow> js_error option"
  StringMatch :: "jsstring \<Rightarrow> jsstring \<Rightarrow> jsstring option list option"
  ObjectPrototypeNames :: "jsstring list"
  ArrayPrototypeNames :: "jsstring list"

text \<open>\<^verbatim>\<open>Number(value)\<close> and \<^verbatim>\<open>String(value)\<close> (also the \<^verbatim>\<open>${value}\<close> of a template literal).\<close>

fun js_Number :: "runtime \<Rightarrow> jsval \<Rightarrow> jsnum" where
  "js_Number rt (Primitive JUndefined) = NaN"
| "js_Number rt (Primitive JNull) = Fin 0"
| "js_Number rt (Primitive (JBool b)) = Fin (if b then 1 else 0)"
| "js_Number rt (Primitive (JNum n)) = n"
| "js_Number rt (Primitive (JStr s)) = StringToNumber rt s"
| "js_Number rt (Builtin b) = BuiltinToNumber rt b"

fun js_String :: "runtime \<Rightarrow> jsval \<Rightarrow> jsstring" where
  "js_String rt (Primitive JUndefined) = ustr ''undefined''"
| "js_String rt (Primitive JNull) = ustr ''null''"
| "js_String rt (Primitive (JBool b)) = (if b then ustr ''true'' else ustr ''false'')"
| "js_String rt (Primitive (JNum n)) = NumberToString rt n"
| "js_String rt (Primitive (JStr s)) = s"
| "js_String rt (Builtin b) = BuiltinToString rt b"

subsection \<open>Objects\<close>

text \<open>
  An ordinary object with primitive property values: its own properties, and whether its
  prototype is \<^verbatim>\<open>Object.prototype\<close> (as for an object literal and for a parsed record) or
  \<^verbatim>\<open>null\<close>.
\<close>

record jsobject =
  props :: "jsstring \<rightharpoonup> jsprim"
  hasProto :: bool

definition protoKey :: jsstring where
  "protoKey = ustr ''__proto__''"

text \<open>
  A read that reaches \<^verbatim>\<open>Object.prototype\<close>: the accessor \<^verbatim>\<open>__proto__\<close> gives the prototype
  of the object read (\<open>self\<close>), a member's name gives the member, any other key
  \<^verbatim>\<open>undefined\<close>. A read through \<^verbatim>\<open>Array.prototype\<close> looks there first.
\<close>

definition fromObjectPrototype :: "runtime \<Rightarrow> builtin \<Rightarrow> jsstring \<Rightarrow> jsval" where
  "fromObjectPrototype rt self key =
     (if key = protoKey then Builtin self
      else if key \<in> set (ObjectPrototypeNames rt) then Builtin (ObjectMember key)
      else Primitive JUndefined)"

definition fromArrayPrototype :: "runtime \<Rightarrow> jsstring \<Rightarrow> jsval" where
  "fromArrayPrototype rt key =
     (if key \<in> set (ArrayPrototypeNames rt) then Builtin (ArrayMember key)
      else fromObjectPrototype rt ArrayPrototype key)"

text \<open>\<^verbatim>\<open>obj[key]\<close>: the own property, or else what the prototype chain gives.\<close>

definition getProp :: "runtime \<Rightarrow> jsobject \<Rightarrow> jsstring \<Rightarrow> jsval" where
  "getProp rt obj key =
     (case props obj key of
        Some v \<Rightarrow> Primitive v
      | None \<Rightarrow> if hasProto obj then fromObjectPrototype rt ObjectPrototype key
                else Primitive JUndefined)"

text \<open>
  \<^verbatim>\<open>obj[key] = v\<close> for a primitive \<open>v\<close>. An own property is updated. Otherwise the key
  \<^verbatim>\<open>__proto__\<close> reaches the setter of \<^verbatim>\<open>Object.prototype\<close> (when that is the prototype),
  which makes \<^verbatim>\<open>null\<close> the new prototype and ignores every other primitive; any other
  key, and every key of an object without prototype, becomes an own property.
\<close>

definition setProp :: "jsobject \<Rightarrow> jsstring \<Rightarrow> jsprim \<Rightarrow> jsobject" where
  "setProp obj key v =
     (if key = protoKey \<and> hasProto obj \<and> props obj key = None
      then (if v = JNull then obj\<lparr>hasProto := False\<rparr> else obj)
      else obj\<lparr>props := (props obj)(key \<mapsto> v)\<rparr>)"

text \<open>The object literal \<^verbatim>\<open>{}\<close>.\<close>

definition emptyObject :: jsobject where
  "emptyObject = \<lparr>props = Map.empty, hasProto = True\<rparr>"

subsection \<open>The interfaces of the source\<close>

datatype fileKind = Excel | Csv | Pdf

datatype dataType = DString | DNumber | DDate

text \<open>
  A row is an array of cells (spreadsheet) or a record keyed by header (delimited text, and
  the single \<^verbatim>\<open>{ content }\<close> row of a PDF).
\<close>

datatype row = ArrRow "jsprim list" | RecRow jsobject

record fileMetadata =
  md_totalRows :: int
  md_type :: fileKind
  sheetName :: "jsstring option"
  filename :: jsstring

text \<open>\<open>headers\<close> is \<open>None\<close> where the source leaves it \<^verbatim>\<open>undefined\<close>.\<close>

record ParsedFileData =
  headers :: "jsprim list option"
  rows :: "row list"
  metadata :: fileMetadata

record columnMapping =
  name :: jsstring
  sourceColumn :: jsstring
  required :: bool
  dataType :: dataType

text \<open>
  \<open>skipRows\<close> is a count of rows, so \<^verbatim>\<open>template.skipRows || 0\<close> is \<open>skipRows\<close> itself;
  \<open>pdfSettings\<close> is the optional \<^verbatim>\<open>pdfSettings.patterns\<close>, an object.
\<close>

record TemplateMappingData =
  fileType :: fileKind
  skipRows :: nat
  columns :: "columnMapping list"
  pdfSettings :: "jsobject option"

record rowError =
  row :: nat
  message :: jsstring

record MappingResult =
  r_headers :: "jsstring list"
  r_rows :: "jsobject list"
  totalRows :: int
  mappedRows :: int
  errorRows :: int
  errors :: "rowError list"

subsection \<open>The message texts\<close>

text \<open>
  The literal parts of the template strings of the source, by code unit. In the order of
  the definitions they read: \<^verbatim>\<open>required field '\<close>; \<^verbatim>\<open>' has no value.\<close>; \<^verbatim>\<open>field '\<close>;
  \<^verbatim>\<open>' data type conversion error: \<close>; \<^verbatim>\<open>template application error: \<close>;
  \<^verbatim>\<open>' has no pattern defined.\<close>; \<^verbatim>\<open>' value cannot be found.\<close>;
  \<^verbatim>\<open>' is not a valid number.\<close>; \<^verbatim>\<open>' is not a valid date.\<close>
\<close>

definition txt_required_field :: jsstring where
  "txt_required_field = [0xD544, 0xC218, 0x20, 0xD544, 0xB4DC, 0x20, 0x27]"

definition txt_has_no_value :: jsstring where
  "txt_has_no_value =
     [0x27, 0xC758, 0x20, 0xAC12, 0xC774, 0x20, 0xC5C6, 0xC2B5, 0xB2C8, 0xB2E4, 0x2E]"

definition txt_field :: jsstring where
  "txt_field = [0xD544, 0xB4DC, 0x20, 0x27]"

definition txt_conversion_error :: jsstring where
  "txt_conversion_error =
     [0x27, 0xC758, 0x20, 0xB370, 0xC774, 0xD130, 0x20, 0xD0C0, 0xC785, 0x20, 0xBCC0, 0xD658,
      0x20, 0xC624, 0xB958, 0x3A, 0x20]"

definition txt_template_error :: jsstring where
  "txt_template_error =
     [0xD15C, 0xD50C, 0xB9BF, 0x20, 0xC801, 0xC6A9, 0x20, 0xC624, 0xB958, 0x3A, 0x20]"

definition txt_pattern_undefined :: jsstring where
  "txt_pattern_undefined =
     [0x27, 0xC758, 0x20, 0xD328, 0xD134, 0xC774, 0x20, 0xC815, 0xC758, 0xB418, 0xC9C0, 0x20,
      0xC54A, 0xC558, 0xC2B5, 0xB2C8, 0xB2E4, 0x2E]"

definition txt_value_not_found :: jsstring where
  "txt_value_not_found =
     [0x27, 0xC758, 0x20, 0xAC12, 0xC744, 0x20, 0xCC3E, 0xC744, 0x20, 0xC218, 0x20, 0xC5C6,
      0xC2B5, 0xB2C8, 0xB2E4, 0x2E]"

definition txt_not_a_number :: jsstring where
  "txt_not_a_number =
     [0x27, 0xC740, 0x28, 0xB294, 0x29, 0x20, 0xC720, 0xD6A8, 0xD55C, 0x20, 0xC22B, 0xC790,
      0xAC00, 0x20, 0xC544, 0xB2D9, 0xB2C8, 0xB2E4, 0x2E]"

definition txt_not_a_date :: jsstring where
  "txt_not_a_date =
     [0x27, 0xC740, 0x28, 0xB294, 0x29, 0x20, 0xC720, 0xD6A8, 0xD55C, 0x20, 0xB0A0, 0xC9DC,
      0xAC00, 0x20, 0xC544, 0xB2D9, 0xB2C8, 0xB2E4, 0x2E]"

text \<open>The Korean nouns for "number" and "date", as they occur in the last two texts.\<close>

definition word_number :: jsstring where
  "word_number = [0xC22B, 0xC790]"

definition word_date :: jsstring where
  "word_date = [0xB0A0, 0xC9DC]"

subsection \<open>\<^verbatim>\<open>excelColToIndex\<close>\<close>

text \<open>
  The loop computes in doubles. Its values are integers or infinities, and each operation
  gives the double nearest to the exact result, the one with the even significand on a
  tie: an integer of magnitude below \<open>2 ^ 53\<close> is a double; a larger one is rounded to a
  multiple of the power of two that leaves it 53 bits; a result of magnitude \<open>2 ^ 1024\<close>
  or more is an infinity.
\<close>

fun bitLength :: "nat \<Rightarrow> nat" where
  "bitLength n = (if n = 0 then 0 else Suc (bitLength (n div 2)))"

definition roundNat :: "nat \<Rightarrow> nat" where
  "roundNat n =
     (if n < 2 ^ 53 then n
      else let u = 2 ^ (bitLength n - 53); q = n div u; r = n mod u
           in if 2 * r < u \<or> (2 * r = u \<and> even q) then q * u else (q + 1) * u)"

datatype dint = Finite int | PlusInfinity | MinusInfinity

definition toDouble :: "int \<Rightarrow> dint" where
  "toDouble z =
     (let m = roundNat (nat \<bar>z\<bar>)
      in if 2 ^ 1024 \<le> m then (if z < 0 then MinusInfinity else PlusInfinity)
         else Finite (if z < 0 then - int m else int m))"

text \<open>The product of a value of the loop with 26, and its sum with an integer.\<close>

fun times26 :: "dint \<Rightarrow> dint" where
  "times26 (Finite n) = toDouble (n * 26)"
| "times26 PlusInfinity = PlusInfinity"
| "times26 MinusInfinity = MinusInfinity"

fun plusInt :: "dint \<Rightarrow> int \<Rightarrow> dint" where
  "plusInt (Finite n) k = toDouble (n + k)"
| "plusInt PlusInfinity k = PlusInfinity"
| "plusInt MinusInfinity k = MinusInfinity"

fun numberOf :: "dint \<Rightarrow> jsnum" where
  "numberOf (Finite n) = Fin (of_int n)"
| "numberOf PlusInfinity = PosInf"
| "numberOf MinusInfinity = NegInf"

text \<open>
  \<^verbatim>\<open>for (i ...) result = result * 26 + col.charCodeAt(i) - 64; return result - 1\<close>
\<close>

definition excelColStep :: "jschar \<Rightarrow> dint \<Rightarrow> dint" where
  "excelColStep c result = plusInt (plusInt (times26 result) (uint c)) (- 64)"

definition excelColToIndex :: "jsstring \<Rightarrow> jsnum" where
  "excelColToIndex col = numberOf (plusInt (fold excelColStep col (Finite 0)) (- 1))"

text \<open>
  The strings the claim is about, the order of spreadsheet columns on them, and the number
  a string denotes in the bijective base 26 (the loop's result when no operation rounds).
\<close>

definition upper :: "jschar \<Rightarrow> bool" where
  "upper c = (0x41 \<le> c \<and> c \<le> 0x5A)"

definition columnLetters :: "jsstring \<Rightarrow> bool" where
  "columnLetters s = (s \<noteq> [] \<and> list_all upper s)"

fun alphabetical :: "jsstring \<Rightarrow> jsstring \<Rightarrow> bool" where
  "alphabetical (x # xs) (y # ys) = (x < y \<or> (x = y \<and> alphabetical xs ys))"
| "alphabetical _ _ = False"

definition columnBefore :: "jsstring \<Rightarrow> jsstring \<Rightarrow> bool" where
  "columnBefore s t =
     (length s < length t \<or> (length s = length t \<and> alphabetical s t))"

definition exactStep :: "jschar \<Rightarrow> int \<Rightarrow> int" where
  "exactStep c v = v * 26 + uint c - 64"

definition columnNumber :: "jsstring \<Rightarrow> int" where
  "columnNumber s = fold exactStep s 0"

subsection \<open>Reading a cell of a row\<close>

text \<open>The decimal digits of a natural number: the key of an array index.\<close>

fun decimal :: "nat \<Rightarrow> jsstring" where
  "decimal n = (if n < 10 then [of_nat (48 + n)] else decimal (n div 10) @ [of_nat (48 + n mod 10)])"

text \<open>
  \<^verbatim>\<open>sourceRow[mapping.sourceColumn]\<close>. On a record it is a property read. On an array the
  key reads \<^verbatim>\<open>length\<close>, or the element when it is the decimal form of an index below the
  length, or else what \<^verbatim>\<open>Array.prototype\<close> gives.
\<close>

fun getKey :: "runtime \<Rightarrow> row \<Rightarrow> jsstring \<Rightarrow> jsval" where
  "getKey rt (RecRow obj) key = getProp rt obj key"
| "getKey rt (ArrRow cells) key =
     (if key = ustr ''length'' then Primitive (JNum (Fin (of_nat (length cells))))
      else (case find (\<lambda>i. decimal i = key) [0 ..< length cells] of
              Some i \<Rightarrow> Primitive (cells ! i)
            | None \<Rightarrow> fromArrayPrototype rt key))"

text \<open>
  \<^verbatim>\<open>sourceRow[columnIndex]\<close>. On an array a number that is an index below the length reads
  the element; any other number is a property key that no element has. On a record the
  number is the property key.
\<close>

fun getIndex :: "runtime \<Rightarrow> row \<Rightarrow> jsnum \<Rightarrow> jsval" where
  "getIndex rt (ArrRow cells) n =
     (case find (\<lambda>i. n = Fin (of_nat i)) [0 ..< length cells] of
        Some i \<Rightarrow> Primitive (cells ! i)
      | None \<Rightarrow> fromArrayPrototype rt (NumberToString rt n))"
| "getIndex rt (RecRow obj) n = getProp rt obj (NumberToString rt n)"

subsection \<open>\<^verbatim>\<open>convertDataType\<close>\<close>

definition convertDataType :: "runtime \<Rightarrow> jsval \<Rightarrow> dataType \<Rightarrow> js_error + jsprim" where
  "convertDataType rt value dt =
     (if value = Primitive JNull \<or> value = Primitive JUndefined then Inr JNull
      else case dt of
        DNumber \<Rightarrow>
          (let num = js_Number rt value
           in if num = NaN
              then Inl (Error ([0x27] @ js_String rt value @ txt_not_a_number))
              else Inr (JNum num))
      | DDate \<Rightarrow>
          (case DateToISO rt value of
             None \<Rightarrow> Inl (Error ([0x27] @ js_String rt value @ txt_not_a_date))
           | Some isoString \<Rightarrow> Inr (JStr isoString))
      | DString \<Rightarrow> Inr (JStr (js_String rt value)))"

subsection \<open>\<^verbatim>\<open>applyTemplate\<close>: the spreadsheet and delimited-text loop\<close>

text \<open>
  \<open>resolveValue\<close> is the \<^verbatim>\<open>if (fileData.metadata.type === 'excel') ... else ...\<close> that
  sets \<^verbatim>\<open>value\<close>; the second branch is \<^verbatim>\<open>sourceRow[mapping.sourceColumn] || null\<close>.
\<close>

definition resolveValue :: "runtime \<Rightarrow> fileKind \<Rightarrow> row \<Rightarrow> columnMapping \<Rightarrow> jsval" where
  "resolveValue rt typ sourceRow mapping =
     (if typ = Excel then getIndex rt sourceRow (excelColToIndex (sourceColumn mapping))
      else (let v = getKey rt sourceRow (sourceColumn mapping)
            in if truthy v then v else Primitive JNull))"

text \<open>
  The body of the inner loop, on the variables it updates: \<^verbatim>\<open>mappedRow\<close>, \<^verbatim>\<open>errors\<close> and
  \<^verbatim>\<open>hasError\<close>. \<open>i\<close> is the index of the row.
\<close>

definition mapColumn ::
  "runtime \<Rightarrow> fileKind \<Rightarrow> row \<Rightarrow> nat \<Rightarrow> columnMapping \<Rightarrow>
   jsobject \<times> rowError list \<times> bool \<Rightarrow> jsobject \<times> rowError list \<times> bool" where
  "mapColumn rt typ sourceRow i mapping st =
     (case st of (mappedRow, errs, hasError) \<Rightarrow>
        let value = resolveValue rt typ sourceRow mapping;
            (errs1, hasError1) =
              (if required mapping \<and> (value = Primitive JNull \<or> value = Primitive JUndefined)
               then (errs @ [\<lparr>row = i + 1,
                               message = txt_required_field @ name mapping @ txt_has_no_value\<rparr>],
                     True)
               else (errs, hasError))
        in (case convertDataType rt value (dataType mapping) of
              Inr v \<Rightarrow> (setProp mappedRow (name mapping) v, errs1, hasError1)
            | Inl e \<Rightarrow>
                (mappedRow,
                 errs1 @ [\<lparr>row = i + 1,
                           message = txt_field @ name mapping @ txt_conversion_error
                                     @ error_message e\<rparr>],
                 True)))"

text \<open>
  The body of the outer loop, on \<^verbatim>\<open>mappedRows\<close> and \<^verbatim>\<open>errors\<close>. The loop runs over
  \<open>i < sourceData.length\<close> only, so \<open>sourceData ! i\<close> is a row of the document.
\<close>

definition mapRow ::
  "runtime \<Rightarrow> fileKind \<Rightarrow> row list \<Rightarrow> columnMapping list \<Rightarrow> nat \<Rightarrow>
   jsobject list \<times> rowError list \<Rightarrow> jsobject list \<times> rowError list" where
  "mapRow rt typ sourceData columnMappings i st =
     (case st of (mappedRows_acc, errs) \<Rightarrow>
        let sourceRow = sourceData ! i;
            (mappedRow, errs', hasError) =
              fold (mapColumn rt typ sourceRow i) columnMappings (emptyObject, errs, False)
        in (if \<not> hasError then mappedRows_acc @ [mappedRow] else mappedRows_acc, errs'))"

definition applyTabular :: "runtime \<Rightarrow> ParsedFileData \<Rightarrow> TemplateMappingData \<Rightarrow> MappingResult" where
  "applyTabular rt fileData template =
     (let sourceData = rows fileData;
          skip = skipRows template;
          columnMappings = columns template;
          resultHeaders = map name columnMappings;
          (mapped, errs) =
            fold (mapRow rt (md_type (metadata fileData)) sourceData columnMappings)
                 [skip ..< length sourceData] ([], [])
      in \<lparr>r_headers = resultHeaders,
          r_rows = mapped,
          totalRows = int (length sourceData) - int skip,
          mappedRows = int (length mapped),
          errorRows = int (length errs),
          errors = errs\<rparr>)"

subsection \<open>\<^verbatim>\<open>applyPdfTemplate\<close>\<close>

text \<open>
  The message of the \<^verbatim>\<open>TypeError\<close> that \<^verbatim>\<open>pdfContent.match(regex)\<close> raises when
  \<^verbatim>\<open>pdfContent\<close> is not a string (the wording of V8): no other primitive and no object of
  the standard library that a read can give has a method \<^verbatim>\<open>match\<close>.
\<close>

definition txt_match_not_a_function :: jsstring where
  "txt_match_not_a_function = ustr ''pdfContent.match is not a function''"

text \<open>\<^verbatim>\<open>fileData.rows[0]?.content || ''\<close>\<close>

definition pdfContentOf :: "runtime \<Rightarrow> ParsedFileData \<Rightarrow> jsval" where
  "pdfContentOf rt fileData =
     (case rows fileData of
        [] \<Rightarrow> Primitive (JStr [])
      | r # _ \<Rightarrow> (let v = getKey rt r (ustr ''content'')
                  in if truthy v then v else Primitive (JStr [])))"

text \<open>\<^verbatim>\<open>template.pdfSettings?.patterns[mapping.name]\<close>\<close>

definition patternOf :: "runtime \<Rightarrow> TemplateMappingData \<Rightarrow> columnMapping \<Rightarrow> jsval" where
  "patternOf rt template mapping =
     (case pdfSettings template of
        None \<Rightarrow> Primitive JUndefined
      | Some patterns \<Rightarrow> getProp rt patterns (name mapping))"

text \<open>\<^verbatim>\<open>match[1]\<close> of a match array: \<^verbatim>\<open>undefined\<close> when there is no first group.\<close>

definition group1 :: "jsstring option list \<Rightarrow> jsstring option" where
  "group1 m = (if 1 < length m then m ! 1 else None)"

text \<open>
  The body of the loop over \<^verbatim>\<open>template.columns\<close>, on \<^verbatim>\<open>mappedRow\<close> and \<^verbatim>\<open>errors\<close>.
  \<^verbatim>\<open>new RegExp\<close> makes a string of a pattern that is not one. Nothing catches what
  \<^verbatim>\<open>new RegExp\<close>, \<^verbatim>\<open>match\<close> or \<^verbatim>\<open>convertDataType\<close> throw, so they end the loop.
  \<open>requiredError\<close> is the \<^verbatim>\<open>if (mapping.required) errors.push({ row: 1, message })\<close>
  that the loop has in two places, with the two messages.
\<close>

definition requiredError :: "columnMapping \<Rightarrow> jsstring \<Rightarrow> rowError list \<Rightarrow> rowError list" where
  "requiredError mapping txt errs =
     (if required mapping
      then errs @ [\<lparr>row = 1, message = txt_required_field @ name mapping @ txt\<rparr>]
      else errs)"

definition pdfColumn ::
  "runtime \<Rightarrow> jsval \<Rightarrow> TemplateMappingData \<Rightarrow> columnMapping \<Rightarrow>
   jsobject \<times> rowError list \<Rightarrow> js_error + jsobject \<times> rowError list" where
  "pdfColumn rt pdfContent template mapping st =
     (case st of (mappedRow, errs) \<Rightarrow>
        (let pattern = patternOf rt template mapping
         in if \<not> truthy pattern
            then Inr (mappedRow, requiredError mapping txt_pattern_undefined errs)
            else (case RegExpError rt (js_String rt pattern) of
                    Some e \<Rightarrow> Inl e
                  | None \<Rightarrow>
                      (case pdfContent of
                         Primitive (JStr text) \<Rightarrow>
                           (case (case StringMatch rt (js_String rt pattern) text of
                                    None \<Rightarrow> None
                                  | Some m \<Rightarrow> group1 m) of
                              Some g \<Rightarrow>
                                (if g \<noteq> []
                                 then (case convertDataType rt (Primitive (JStr g))
                                              (dataType mapping) of
                                         Inl e \<Rightarrow> Inl e
                                       | Inr v \<Rightarrow>
                                           Inr (setProp mappedRow (name mapping) v, errs))
                                 else Inr (mappedRow,
                                           requiredError mapping txt_value_not_found errs))
                            | None \<Rightarrow>
                                Inr (mappedRow,
                                     requiredError mapping txt_value_not_found errs))
                       | _ \<Rightarrow> Inl (TypeError txt_match_not_a_function)))))"

fun pdfColumns ::
  "runtime \<Rightarrow> jsval \<Rightarrow> TemplateMappingData \<Rightarrow> columnMapping list \<Rightarrow>
   jsobject \<times> rowError list \<Rightarrow> js_error + jsobject \<times> rowError list" where
  "pdfColumns rt pdfContent template [] st = Inr st"
| "pdfColumns rt pdfContent template (mapping # rest) st =
     (case pdfColumn rt pdfContent template mapping st of
        Inl e \<Rightarrow> Inl e
      | Inr st' \<Rightarrow> pdfColumns rt pdfContent template rest st')"

definition applyPdfTemplate ::
  "runtime \<Rightarrow> ParsedFileData \<Rightarrow> TemplateMappingData \<Rightarrow> js_error + MappingResult" where
  "applyPdfTemplate rt fileData template =
     (case pdfColumns rt (pdfContentOf rt fileData) template (columns template)
             (emptyObject, []) of
        Inl e \<Rightarrow> Inl e
      | Inr (mappedRow, errs) \<Rightarrow>
          (let resultHeaders = map name (columns template);
               hasErrors = (0 < length errs)
           in Inr \<lparr>r_headers = resultHeaders,
                   r_rows = (if hasErrors then [] else [mappedRow]),
                   totalRows = 1,
                   mappedRows = (if hasErrors then 0 else 1),
                   errorRows = int (length errs),
                   errors = errs\<rparr>))"

subsection \<open>\<^verbatim>\<open>applyTemplate\<close>\<close>

text \<open>
  The \<^verbatim>\<open>try\<close> block returns the result of one of the two branches; its \<^verbatim>\<open>catch\<close> wraps
  whatever was thrown in a new \<^verbatim>\<open>Error\<close>.
\<close>

definition applyTemplate ::
  "runtime \<Rightarrow> ParsedFileData \<Rightarrow> TemplateMappingData \<Rightarrow> js_error + MappingResult" where
  "applyTemplate rt fileData template =
     (case (if fileType template = Pdf \<and> md_type (metadata fileData) = Pdf
            then applyPdfTemplate rt fileData template
            else Inr (applyTabular rt fileData template)) of
        Inl e \<Rightarrow> Inl (Error (txt_template_error @ error_message e))
      | Inr result \<Rightarrow> Inr result)"

subsection \<open>\<^verbatim>\<open>parseExcel\<close>\<close>

text \<open>
  \<^verbatim>\<open>XLSX.readFile\<close> gives the workbook: the names of its sheets, in order, and the sheets
  by name. A sheet is written as the array of arrays that
  \<^verbatim>\<open>XLSX.utils.sheet_to_json(worksheet, { header: 1 })\<close> makes of it; for a sheet that is
  \<^verbatim>\<open>undefined\<close> the library returns the empty array.
\<close>

record workbook =
  SheetNames :: "jsstring list"
  Sheets :: "jsstring \<rightharpoonup> jsprim list list"

definition parseExcel :: "workbook \<Rightarrow> jsstring \<Rightarrow> ParsedFileData" where
  "parseExcel wb fname =
     (let sheet = (case SheetNames wb of [] \<Rightarrow> None | n # _ \<Rightarrow> Some n);
          jsonData = (case sheet of
                        None \<Rightarrow> []
                      | Some n \<Rightarrow> (case Sheets wb n of None \<Rightarrow> [] | Some grid \<Rightarrow> grid));
          hdrs = (case jsonData of [] \<Rightarrow> None | first # _ \<Rightarrow> Some first);
          data = map ArrRow (drop 1 jsonData)
      in \<lparr>headers = hdrs,
          rows = data,
          metadata = \<lparr>md_totalRows = int (length data), md_type = Excel,
                      sheetName = sheet, filename = fname\<rparr>\<rparr>)"

subsection \<open>Rows of a call, for the statements\<close>

text \<open>
  The branch a call takes, the numbers (\<open>i + 1\<close>, or 1 on the free-text branch) of the rows
  it processes in their order, the entries of \<open>errors\<close> that carry a given row number, and
  \<^verbatim>\<open>mappedRow\<close> as the loop over the columns leaves it for the row of that number.
\<close>

definition onPdfPath :: "ParsedFileData \<Rightarrow> TemplateMappingData \<Rightarrow> bool" where
  "onPdfPath fileData template = (fileType template = Pdf \<and> md_type (metadata fileData) = Pdf)"

definition rowNumbers :: "ParsedFileData \<Rightarrow> TemplateMappingData \<Rightarrow> nat list" where
  "rowNumbers fileData template =
     (if onPdfPath fileData template then [1]
      else map Suc [skipRows template ..< length (rows fileData)])"

definition errorsOfRow :: "MappingResult \<Rightarrow> nat \<Rightarrow> rowError list" where
  "errorsOfRow result n = filter (\<lambda>e. row e = n) (errors result)"

text \<open>
  What one step of the loop over the columns adds to \<^verbatim>\<open>errors\<close>, and what it makes of
  \<^verbatim>\<open>mappedRow\<close>.
\<close>

definition columnErrors ::
  "runtime \<Rightarrow> fileKind \<Rightarrow> row \<Rightarrow> nat \<Rightarrow> columnMapping \<Rightarrow> rowError list" where
  "columnErrors rt typ sourceRow i mapping =
     fst (snd (mapColumn rt typ sourceRow i mapping (emptyObject, [], False)))"

definition columnStore ::
  "runtime \<Rightarrow> fileKind \<Rightarrow> row \<Rightarrow> nat \<Rightarrow> columnMapping \<Rightarrow> jsobject \<Rightarrow> jsobject" where
  "columnStore rt typ sourceRow i mapping mappedRow =
     fst (mapColumn rt typ sourceRow i mapping (mappedRow, [], False))"

definition tabularRow ::
  "runtime \<Rightarrow> ParsedFileData \<Rightarrow> TemplateMappingData \<Rightarrow> nat \<Rightarrow> jsobject \<times> rowError list \<times> bool" where
  "tabularRow rt fileData template i =
     fold (mapColumn rt (md_type (metadata fileData)) (rows fileData ! i) i) (columns template)
          (emptyObject, [], False)"

definition recordOfRow ::
  "runtime \<Rightarrow> ParsedFileData \<Rightarrow> TemplateMappingData \<Rightarrow> nat \<Rightarrow> jsobject" where
  "recordOfRow rt fileData template n =
     (if onPdfPath fileData template
      then (case pdfColumns rt (pdfContentOf rt fileData) template (columns template)
                   (emptyObject, []) of
              Inl e \<Rightarrow> emptyObject
            | Inr st \<Rightarrow> fst st)
      else fst (tabularRow rt fileData template (n - 1)))"

text \<open>The Korean noun that a coercion failure message has for the target type.\<close>

definition typeNoun :: "dataType \<Rightarrow> jsstring" where
  "typeNoun dt = (if dt = DNumber then word_number else word_date)"

subsection \<open>A runtime and documents for the examples\<close>

text \<open>
  The theorems below hold for every runtime. The closed examples need one, and this one
  answers as the language does on what the examples use:
  \<^item> \<^verbatim>\<open>Number(s)\<close> for a string of decimal digits with an optional sign, between optional
    blanks, and for the blank string (which is 0); any other string is answered
    \<^verbatim>\<open>NaN\<close>, as the language answers a string that has a letter no numeric literal has;
  \<^item> \<^verbatim>\<open>String(n)\<close> for an integer below \<open>10 ^ 21\<close> in magnitude and for the three special
    values;
  \<^item> \<^verbatim>\<open>String(o)\<close> and \<^verbatim>\<open>Number(o)\<close> for the objects of the standard library, in the
    wording of V8;
  \<^item> \<^verbatim>\<open>match\<close> for the pattern \<^verbatim>\<open>Total: (.+)\<close> on the two texts of the examples;
  \<^item> the members of \<^verbatim>\<open>Object.prototype\<close> and of \<^verbatim>\<open>Array.prototype\<close> in ECMAScript 2023.
  It converts no date and raises no \<^verbatim>\<open>SyntaxError\<close>; no example asks it to.
\<close>

definition blank :: "jschar \<Rightarrow> bool" where
  "blank c = (c = 0x20 \<or> c = 0x09 \<or> c = 0x0A \<or> c = 0x0D)"

definition digit :: "jschar \<Rightarrow> bool" where
  "digit c = (0x30 \<le> c \<and> c \<le> 0x39)"

definition digitsValue :: "jsstring \<Rightarrow> int" where
  "digitsValue ds = fold (\<lambda>c v. v * 10 + (uint c - 48)) ds 0"

definition exampleStringToNumber :: "jsstring \<Rightarrow> jsnum" where
  "exampleStringToNumber s =
     (let t = rev (dropWhile blank (rev (dropWhile blank s)))
      in case t of
           [] \<Rightarrow> Fin 0
         | c # r \<Rightarrow>
             (let ds = (if c = 0x2D \<or> c = 0x2B then r else t)
              in if ds \<noteq> [] \<and> list_all digit ds
                 then Fin (of_int (if c = 0x2D then - digitsValue ds else digitsValue ds))
                 else NaN))"

definition numberKey :: "int \<Rightarrow> jsstring" where
  "numberKey n = (if n < 0 then 0x2D # decimal (nat (- n)) else decimal (nat n))"

definition exampleNumberToString :: "jsnum \<Rightarrow> jsstring" where
  "exampleNumberToString n =
     (case n of
        NaN \<Rightarrow> ustr ''NaN''
      | PosInf \<Rightarrow> ustr ''Infinity''
      | NegInf \<Rightarrow> ustr ''-Infinity''
      | Fin q \<Rightarrow> numberKey (fst (quotient_of q)))"

definition exampleBuiltinToString :: "builtin \<Rightarrow> jsstring" where
  "exampleBuiltinToString b =
     (case b of
        ObjectPrototype \<Rightarrow> ustr ''[object Object]''
      | ArrayPrototype \<Rightarrow> []
      | ObjectMember k \<Rightarrow>
          ustr ''function '' @ (if k = ustr ''constructor'' then ustr ''Object'' else k)
            @ ustr ''() { [native code] }''
      | ArrayMember k \<Rightarrow>
          ustr ''function '' @ (if k = ustr ''constructor'' then ustr ''Array'' else k)
            @ ustr ''() { [native code] }'')"

definition exampleBuiltinToNumber :: "builtin \<Rightarrow> jsnum" where
  "exampleBuiltinToNumber b = (if b = ArrayPrototype then Fin 0 else NaN)"

definition exampleStringMatch :: "jsstring \<Rightarrow> jsstring \<Rightarrow> jsstring option list option" where
  "exampleStringMatch pattern text =
     (if pattern = ustr ''Total: (.+)'' \<and> text = ustr ''Total: abc''
      then Some [Some (ustr ''Total: abc''), Some (ustr ''abc'')]
      else if pattern = ustr ''Total: (.+)'' \<and> text = ustr ''Total: 4200''
      then Some [Some (ustr ''Total: 4200''), Some (ustr ''4200'')]
      else None)"

definition exampleObjectPrototypeNames :: "jsstring list" where
  "exampleObjectPrototypeNames =
     map ustr [''constructor'', ''__defineGetter__'', ''__defineSetter__'', ''hasOwnProperty'',
       ''__lookupGetter__'', ''__lookupSetter__'', ''isPrototypeOf'', ''propertyIsEnumerable'',
       ''toString'', ''valueOf'', ''toLocaleString'']"

definition exampleArrayPrototypeNames :: "jsstring list" where
  "exampleArrayPrototypeNames =
     map ustr [''constructor'', ''at'', ''concat'', ''copyWithin'', ''fill'', ''find'',
       ''findIndex'', ''findLast'', ''findLastIndex'', ''lastIndexOf'', ''pop'', ''push'',
       ''reverse'', ''shift'', ''unshift'', ''slice'', ''sort'', ''splice'', ''includes'',
       ''indexOf'', ''join'', ''keys'', ''entries'', ''values'', ''forEach'', ''filter'',
       ''flat'', ''flatMap'', ''map'', ''every'', ''some'', ''reduce'', ''reduceRight'',
       ''toLocaleString'', ''toString'', ''toReversed'', ''toSorted'', ''toSpliced'', ''with'']"

definition exampleRuntime :: runtime where
  "exampleRuntime =
     \<lparr>StringToNumber = exampleStringToNumber,
      NumberToString = exampleNumberToString,
      BuiltinToString = exampleBuiltinToString,
      BuiltinToNumber = exampleBuiltinToNumber,
      DateToISO = (\<lambda>v. None),
      RegExpError = (\<lambda>pattern. None),
      StringMatch = exampleStringMatch,
      ObjectPrototypeNames = exampleObjectPrototypeNames,
      ArrayPrototypeNames = exampleArrayPrototypeNames\<rparr>"

text \<open>
  An object literal with the given own properties, one column mapping, and a document of a
  kind with the given rows.
\<close>

definition plain :: "(jsstring \<rightharpoonup> jsprim) \<Rightarrow> jsobject" where
  "plain ps = \<lparr>props = ps, hasProto = True\<rparr>"

definition aColumn :: "string \<Rightarrow> string \<Rightarrow> bool \<Rightarrow> dataType \<Rightarrow> columnMapping" where
  "aColumn nm src req dt =
     \<lparr>name = ustr nm, sourceColumn = ustr src, required = req, dataType = dt\<rparr>"

definition aDocument :: "fileKind \<Rightarrow> row list \<Rightarrow> ParsedFileData" where
  "aDocument kind rs =
     \<lparr>headers = None, rows = rs,
      metadata = \<lparr>md_totalRows = int (length rs), md_type = kind, sheetName = None,
                  filename = ustr ''quote''\<rparr>\<rparr>"

definition aTemplate :: "fileKind \<Rightarrow> nat \<Rightarrow> columnMapping list \<Rightarrow> TemplateMappingData" where
  "aTemplate kind skip cols =
     \<lparr>fileType = kind, skipRows = skip, columns = cols, pdfSettings = None\<rparr>"

text \<open>
  A spreadsheet of two data rows whose second row has no cell in column A, with one required
  text field read from column A; and a delimited-text document of one row that has neither
  of the two required columns of its template.
\<close>

definition sheetDoc :: ParsedFileData where
  "sheetDoc = aDocument Excel [ArrRow [JStr (ustr ''Q-1'')], ArrRow []]"

definition sheetTemplate :: "nat \<Rightarrow> TemplateMappingData" where
  "sheetTemplate skip = aTemplate Excel skip [aColumn ''id'' ''A'' True DString]"

definition bareDoc :: ParsedFileData where
  "bareDoc = aDocument Csv [RecRow (plain Map.empty)]"

definition bareTemplate :: TemplateMappingData where
  "bareTemplate =
     aTemplate Csv 0 [aColumn ''part'' ''part'' True DString, aColumn ''price'' ''price'' True DNumber]"

text \<open>
  A delimited-text document of one row with the given cell under the header \<^verbatim>\<open>price\<close> (and
  a template of the given kind that reads it as a field of the given type), and a PDF whose
  text is given, with a template that takes the number after \<^verbatim>\<open>Total: \<close>.
\<close>

definition priceRow :: "jsprim \<Rightarrow> row" where
  "priceRow cell = RecRow (plain [ustr ''price'' \<mapsto> cell])"

definition priceColumn :: "bool \<Rightarrow> dataType \<Rightarrow> columnMapping" where
  "priceColumn req dt = aColumn ''price'' ''price'' req dt"

definition priceDoc :: "jsprim \<Rightarrow> ParsedFileData" where
  "priceDoc cell = aDocument Csv [priceRow cell]"

definition priceTemplate :: "fileKind \<Rightarrow> bool \<Rightarrow> dataType \<Rightarrow> TemplateMappingData" where
  "priceTemplate kind req dt = aTemplate kind 0 [priceColumn req dt]"

definition textDoc :: "string \<Rightarrow> ParsedFileData" where
  "textDoc text = aDocument Pdf [RecRow (plain [ustr ''content'' \<mapsto> JStr (ustr text)])]"

definition totalTemplate :: TemplateMappingData where
  "totalTemplate =
     \<lparr>fileType = Pdf, skipRows = 0, columns = [aColumn ''total'' [] True DNumber],
      pdfSettings = Some (plain [ustr ''total'' \<mapsto> JStr (ustr ''Total: (.+)'')])\<rparr>"

text \<open>A workbook of two sheets; the first has a first row and one more row.\<close>

definition twoSheets :: workbook where
  "twoSheets =
     \<lparr>SheetNames = [ustr ''Quotes'', ustr ''Notes''],
      Sheets = [ustr ''Quotes'' \<mapsto> [[JStr (ustr ''id'')], [JStr (ustr ''Q-1'')]],
                ustr ''Notes'' \<mapsto> [[JStr (ustr ''memo'')]]]\<rparr>"

text \<open>What \<^verbatim>\<open>applyTemplate\<close> returns for three of them (lemmas \<open>sheet_result\<close>,
  \<open>bare_result\<close>, \<open>price_result\<close>).\<close>

definition sheetResult :: MappingResult where
  "sheetResult =
     \<lparr>r_headers = [ustr ''id''],
      r_rows = [plain [ustr ''id'' \<mapsto> JStr (ustr ''Q-1'')]],
      totalRows = 2, mappedRows = 1, errorRows = 1,
      errors = [\<lparr>row = 2, message = txt_required_field @ ustr ''id'' @ txt_has_no_value\<rparr>]\<rparr>"

definition bareResult :: MappingResult where
  "bareResult =
     \<lparr>r_headers = [ustr ''part'', ustr ''price''],
      r_rows = [],
      totalRows = 1, mappedRows = 0, errorRows = 2,
      errors = [\<lparr>row = 1, message = txt_required_field @ ustr ''part'' @ txt_has_no_value\<rparr>,
                \<lparr>row = 1, message = txt_required_field @ ustr ''price'' @ txt_has_no_value\<rparr>]\<rparr>"

definition priceResult :: MappingResult where
  "priceResult =
     \<lparr>r_headers = [ustr ''price''],
      r_rows = [plain [ustr ''price'' \<mapsto> JNum (Fin 12)]],
      totalRows = 1, mappedRows = 1, errorRows = 0,
      errors = []\<rparr>"

section \<open>Properties\<close>

subsection \<open>Column letters\<close>

lemma fold_exactStep_shift:
  "fold exactStep s r = r * 26 ^ length s + fold exactStep s 0"
proof (induction s arbitrary: r)
  case Nil
  then show ?case by simp
next
  case (Cons c s)
  define P :: int where "P = 26 ^ length s"
  define V where "V = fold exactStep s 0"
  have l: "fold exactStep (c # s) r = exactStep c r * P + V"
    using Cons.IH [of "exactStep c r"] by (simp add: P_def V_def)
  have z: "fold exactStep (c # s) 0 = exactStep c 0 * P + V"
    using Cons.IH [of "exactStep c 0"] by (simp add: P_def V_def)
  have e: "exactStep c r * P = r * (26 * P) + exactStep c 0 * P"
    by (simp add: exactStep_def algebra_simps)
  have "(26::int) ^ length (c # s) = 26 * P" by (simp add: P_def)
  then show ?case unfolding l z e by simp
qed

lemma upper_digit: "upper c \<Longrightarrow> 1 \<le> uint c - 64 \<and> uint c - 64 \<le> 26"
  by (simp add: upper_def word_le_def)

lemma colValue_Cons:
  "fold exactStep (c # s) 0 = (uint c - 64) * 26 ^ length s + fold exactStep s 0"
  using fold_exactStep_shift [of s "exactStep c 0"] by (simp add: exactStep_def)

lemma colValue_bounds:
  "list_all upper s \<Longrightarrow>
     26 ^ length s - 1 \<le> 25 * fold exactStep s 0 \<and>
     25 * fold exactStep s 0 \<le> 26 * (26 ^ length s - 1)"
proof (induction s)
  case Nil
  then show ?case by simp
next
  case (Cons c s)
  define p :: int where "p = 26 ^ length s"
  define v where "v = fold exactStep s 0"
  define q where "q = (uint c - 64) * p"
  from Cons have d: "1 \<le> uint c - 64" "uint c - 64 \<le> 26"
    and ih: "p - 1 \<le> 25 * v" "25 * v \<le> 26 * (p - 1)"
    using upper_digit by (auto simp: p_def v_def)
  have p: "0 \<le> p" by (simp add: p_def)
  have lo: "p \<le> q" using mult_right_mono [OF d(1) p] by (simp add: q_def)
  have hi: "q \<le> 26 * p" using mult_right_mono [OF d(2) p] by (simp add: q_def)
  have f: "fold exactStep (c # s) 0 = q + v"
    unfolding q_def p_def v_def by (rule colValue_Cons)
  have n: "(26::int) ^ length (c # s) = 26 * p" by (simp add: p_def)
  show ?case unfolding f n using lo hi ih by simp
qed

lemma colValue_length_less:
  assumes "list_all upper s" "list_all upper t" "length s < length t"
  shows "fold exactStep s 0 < fold exactStep t 0"
proof -
  have "(26::int) ^ Suc (length s) \<le> 26 ^ length t"
    using assms(3) by (intro power_increasing) auto
  then have "26 * (26::int) ^ length s \<le> 26 ^ length t" by simp
  moreover have "25 * fold exactStep s 0 \<le> 26 * (26 ^ length s - 1)"
    using colValue_bounds [OF assms(1)] by simp
  moreover have "26 ^ length t - 1 \<le> 25 * fold exactStep t 0"
    using colValue_bounds [OF assms(2)] by simp
  ultimately show ?thesis by simp
qed

lemma colValue_alphabetical:
  "length s = length t \<Longrightarrow> list_all upper s \<Longrightarrow> list_all upper t \<Longrightarrow> alphabetical s t \<Longrightarrow>
     fold exactStep s 0 < fold exactStep t 0"
proof (induction s t rule: list_induct2)
  case Nil
  then show ?case by simp
next
  case (Cons x xs y ys)
  define p :: int where "p = 26 ^ length xs"
  have py: "(26::int) ^ length ys = p" using Cons.hyps by (simp add: p_def)
  have p: "0 \<le> p" by (simp add: p_def)
  have bx: "p - 1 \<le> 25 * fold exactStep xs 0" "25 * fold exactStep xs 0 \<le> 26 * (p - 1)"
    using colValue_bounds [of xs] Cons.prems(1) by (auto simp: p_def)
  have "p - 1 \<le> 25 * fold exactStep ys 0" "25 * fold exactStep ys 0 \<le> 26 * (p - 1)"
    using colValue_bounds [of ys] Cons.prems(2) by (auto simp: py)
  note bys = this
  show ?case
  proof (cases "x < y")
    case True
    then have "uint x - 64 + 1 \<le> uint y - 64" by (simp add: word_less_def)
    from mult_right_mono [OF this p]
    have "(uint x - 64) * p + p \<le> (uint y - 64) * p" by (simp add: algebra_simps)
    moreover define a b where "a = (uint x - 64) * p" and "b = (uint y - 64) * p"
    ultimately have "a + p \<le> b" by simp
    with bx bys have "a + fold exactStep xs 0 < b + fold exactStep ys 0" by simp
    then show ?thesis unfolding colValue_Cons py p_def [symmetric] a_def b_def .
  next
    case False
    with Cons.prems(3) have "x = y" "alphabetical xs ys" by auto
    with Cons show ?thesis unfolding colValue_Cons by simp
  qed
qed

lemma alphabetical_total:
  "length s = length t \<Longrightarrow> s \<noteq> t \<Longrightarrow> alphabetical s t \<or> alphabetical t s"
  by (induction s t rule: list_induct2) auto

lemma columnNumber_mono:
  "columnLetters s \<Longrightarrow> columnLetters t \<Longrightarrow> columnBefore s t \<Longrightarrow>
     columnNumber s < columnNumber t"
  using colValue_length_less [of s t] colValue_alphabetical [of s t]
  by (auto simp: columnLetters_def columnBefore_def columnNumber_def)

lemma columnBefore_total:
  "s \<noteq> t \<Longrightarrow> columnBefore s t \<or> columnBefore t s"
  using alphabetical_total [of s t] by (auto simp: columnBefore_def)

lemma columnNumber_inj:
  "columnLetters s \<Longrightarrow> columnLetters t \<Longrightarrow> columnNumber s = columnNumber t \<Longrightarrow> s = t"
  using columnBefore_total [of s t] columnNumber_mono [of s t] columnNumber_mono [of t s]
  by fastforce

lemma columnNumber_pos: "columnLetters s \<Longrightarrow> 0 \<le> columnNumber s - 1"
proof -
  assume a: "columnLetters s"
  then have "1 \<le> length s" by (cases s) (auto simp: columnLetters_def)
  then have "(26::int) ^ 1 \<le> 26 ^ length s" by (intro power_increasing) auto
  with colValue_bounds [of s] a show ?thesis
    by (simp add: columnLetters_def columnNumber_def)
qed

lemma fold_exactStep_snoc:
  "fold exactStep (s @ [c]) 0 = fold exactStep s 0 * 26 + uint c - 64"
  by (simp add: exactStep_def)

lemma letter_of_nat:
  "k < 26 \<Longrightarrow> upper (of_nat (65 + k)) \<and> uint (of_nat (65 + k) :: jschar) = 65 + int k"
proof -
  assume k: "k < 26"
  then have "unat (of_nat (65 + k) :: jschar) = 65 + k"
    by (simp add: unat_of_nat del: of_nat_add)
  then have "uint (of_nat (65 + k) :: jschar) = 65 + int k"
    by (simp add: uint_nat del: of_nat_add)
  then show ?thesis using k by (simp add: upper_def word_le_def del: of_nat_add)
qed

lemma columnNumber_surj: "\<exists>s. columnLetters s \<and> columnNumber s - 1 = int n"
proof (induction n rule: less_induct)
  case (less n)
  define c :: jschar where "c = of_nat (65 + n mod 26)"
  have c: "upper c" "uint c = 65 + int (n mod 26)"
    using letter_of_nat [of "n mod 26"] by (simp_all add: c_def)
  show ?case
  proof (cases "n < 26")
    case True
    then have "columnLetters [c] \<and> columnNumber [c] - 1 = int n"
      using c by (simp add: columnLetters_def columnNumber_def exactStep_def)
    then show ?thesis by blast
  next
    case False
    then have "n div 26 - 1 < n" by simp
    from less [OF this] obtain s where s: "columnLetters s" "columnNumber s - 1 = int (n div 26 - 1)"
      by blast
    from False have q: "int (n div 26 - 1) = int (n div 26) - 1" by simp
    have "int n = int (n div 26) * 26 + int (n mod 26)"
      by (metis mult.commute of_nat_add of_nat_mult mult_div_mod_eq of_nat_numeral)
    then have "columnNumber (s @ [c]) - 1 = int n"
      using s(2) c(2) unfolding columnNumber_def fold_exactStep_snoc q by simp
    moreover have "columnLetters (s @ [c])" using s(1) c(1) by (simp add: columnLetters_def)
    ultimately show ?thesis by blast
  qed
qed

subsection \<open>Rounding\<close>

lemma roundNat_exact: "n < 2 ^ 53 \<Longrightarrow> roundNat n = n"
  by (simp add: roundNat_def)

lemma toDouble_exact: "\<bar>z\<bar> < 2 ^ 53 \<Longrightarrow> toDouble z = Finite z"
proof -
  assume a: "\<bar>z\<bar> < 2 ^ 53"
  then have "nat \<bar>z\<bar> < 2 ^ 53" by (simp add: nat_less_iff)
  then have r: "roundNat (nat \<bar>z\<bar>) = nat \<bar>z\<bar>" by (rule roundNat_exact)
  have "(2::nat) ^ 53 \<le> 2 ^ 1024" by (intro power_increasing) auto
  with \<open>nat \<bar>z\<bar> < 2 ^ 53\<close> have "\<not> 2 ^ 1024 \<le> nat \<bar>z\<bar>" by linarith
  then show ?thesis by (simp add: toDouble_def r Let_def)
qed

lemma excelColStep_exact:
  assumes "0 \<le> v" "v * 26 + 65535 < 2 ^ 53"
  shows "excelColStep c (Finite v) = Finite (exactStep c v)"
proof -
  define w where "w = uint c"
  have w: "0 \<le> w" "w \<le> 65535"
    using uint_bounded [of c] by (simp_all add: w_def)
  have a: "\<bar>v * 26\<bar> < 2 ^ 53" "\<bar>v * 26 + w\<bar> < 2 ^ 53" "\<bar>v * 26 + w + - 64\<bar> < 2 ^ 53"
    using assms w by (simp_all add: abs_less_iff)
  have 1: "times26 (Finite v) = Finite (v * 26)"
    using a(1) by (simp add: toDouble_exact)
  have 2: "plusInt (Finite (v * 26)) w = Finite (v * 26 + w)"
    using a(2) by (simp add: toDouble_exact)
  have 3: "plusInt (Finite (v * 26 + w)) (- 64) = Finite (v * 26 + w + - 64)"
    unfolding plusInt.simps by (rule toDouble_exact) (rule a(3))
  show ?thesis
    unfolding excelColStep_def exactStep_def w_def [symmetric] 1 2 3 by simp
qed

lemma bound_ten_letters:
  assumes "list_all upper p" "length p \<le> 10"
  shows "0 \<le> columnNumber p \<and> columnNumber p * 26 + 65535 < 2 ^ 53"
proof -
  have "(26::int) ^ length p \<le> 26 ^ 10"
    using assms(2) by (intro power_increasing) auto
  moreover have "(1::int) \<le> 26 ^ length p" by simp
  moreover have "26 ^ length p - 1 \<le> 25 * columnNumber p"
    "25 * columnNumber p \<le> 26 * (26 ^ length p - 1)"
    using colValue_bounds [OF assms(1)] by (simp_all add: columnNumber_def)
  ultimately show ?thesis by simp
qed

lemma loop_exact:
  "list_all upper s \<Longrightarrow> length s \<le> 11 \<Longrightarrow>
     fold excelColStep s (Finite 0) = Finite (columnNumber s)"
proof (induction s rule: rev_induct)
  case Nil
  then show ?case by (simp add: columnNumber_def)
next
  case (snoc c p)
  then have p: "list_all upper p" "length p \<le> 10" by simp_all
  with snoc.IH have ih: "fold excelColStep p (Finite 0) = Finite (columnNumber p)" by simp
  from bound_ten_letters [OF p]
  have "excelColStep c (Finite (columnNumber p)) = Finite (exactStep c (columnNumber p))"
    by (intro excelColStep_exact) simp_all
  then show ?case by (simp add: ih columnNumber_def)
qed

lemma bound_eleven_letters:
  assumes "list_all upper s" "length s \<le> 11"
  shows "25 * columnNumber s \<le> 26 * (26 ^ 11 - 1)"
proof -
  have "(26::int) ^ length s \<le> 26 ^ 11"
    using assms(2) by (intro power_increasing) auto
  moreover have "25 * columnNumber s \<le> 26 * (26 ^ length s - 1)"
    using colValue_bounds [OF assms(1)] by (simp add: columnNumber_def)
  ultimately show ?thesis by simp
qed

lemma excelColToIndex_exact:
  assumes "columnLetters s" "length s \<le> 11"
  shows "excelColToIndex s = Fin (of_int (columnNumber s - 1))"
proof -
  from assms have l: "list_all upper s" by (simp add: columnLetters_def)
  from columnNumber_pos [OF assms(1)] bound_eleven_letters [OF l assms(2)]
  have "\<bar>columnNumber s + - 1\<bar> < 2 ^ 53" by simp
  then have "plusInt (Finite (columnNumber s)) (- 1) = Finite (columnNumber s - 1)"
    by (simp add: toDouble_exact)
  then show ?thesis by (simp add: excelColToIndex_def loop_exact [OF l assms(2)])
qed

lemma twelve_letters_number:
  assumes "list_all upper s" "12 \<le> length s"
  shows "3817158266467287 \<le> columnNumber s"
proof -
  have "(26::int) ^ 12 \<le> 26 ^ length s"
    using assms(2) by (intro power_increasing) auto
  moreover have "26 ^ length s - 1 \<le> 25 * columnNumber s"
    using colValue_bounds [OF assms(1)] by (simp add: columnNumber_def)
  ultimately show ?thesis by simp
qed

lemma twelve_letters_round:
  "excelColToIndex (ustr ''ZZZZZZZZZZZY'') = Fin 99246114928149472"
  "excelColToIndex (ustr ''ZZZZZZZZZZZZ'') = Fin 99246114928149472"
  by (simp_all add: excelColToIndex_def excelColStep_def toDouble_def roundNat_def ustr_def Let_def)

text \<open>
  C7, as the code has it. On the column strings of at most eleven letters, which no
  operation of the loop rounds, \<^verbatim>\<open>excelColToIndex\<close> is a bijection onto the indices 0, 1,
  ..., 3817158266467285 (the index of the last of them); a single letter has the index of
  its place in the alphabet (A is 0, B is 1, Z is 25) and AA has 26; and there the index,
  plus one, grows strictly with the order of spreadsheet columns (a shorter string first,
  alphabetical among strings of one length). Eleven is the longest such length: among the
  strings of twelve letters the loop rounds, and two different ones have the same index.
\<close>

theorem excelColToIndex_bijection:
  "bij_betw excelColToIndex {s. columnLetters s \<and> length s \<le> 11}
     ((\<lambda>n. Fin (of_int n)) ` {0 ..< 3817158266467286})
   \<and> (\<forall>c. upper c \<longrightarrow> excelColToIndex [c] = Fin (of_int (uint c - 0x41)))
   \<and> excelColToIndex (ustr ''A'') = Fin 0 \<and> excelColToIndex (ustr ''B'') = Fin 1
   \<and> excelColToIndex (ustr ''Z'') = Fin 25 \<and> excelColToIndex (ustr ''AA'') = Fin 26
   \<and> (\<forall>s t. columnLetters s \<and> length s \<le> 11 \<and> columnLetters t \<and> length t \<le> 11
            \<and> columnBefore s t \<longrightarrow>
          (\<exists>m n. excelColToIndex s = Fin m \<and> excelColToIndex t = Fin n \<and> m + 1 < n + 1))
   \<and> (\<exists>s t. columnLetters s \<and> length s = 12 \<and> columnLetters t \<and> length t = 12 \<and> s \<noteq> t
          \<and> excelColToIndex s = excelColToIndex t)"
proof -
  let ?D = "{s. columnLetters s \<and> length s \<le> 11}"
  have inj: "inj_on excelColToIndex ?D"
  proof (rule inj_onI)
    fix s t assume "s \<in> ?D" "t \<in> ?D" "excelColToIndex s = excelColToIndex t"
    then have "columnLetters s" "columnLetters t" "columnNumber s = columnNumber t"
      by (simp_all add: excelColToIndex_exact)
    then show "s = t" by (rule columnNumber_inj)
  qed
  have img: "excelColToIndex ` ?D = (\<lambda>n. Fin (of_int n)) ` {0 ..< 3817158266467286}"
  proof (rule set_eqI, rule iffI)
    fix x assume "x \<in> excelColToIndex ` ?D"
    then obtain s where s: "columnLetters s" "length s \<le> 11" "x = excelColToIndex s" by auto
    from s(1) have l: "list_all upper s" by (simp add: columnLetters_def)
    from columnNumber_pos [OF s(1)] bound_eleven_letters [OF l s(2)]
    have "columnNumber s - 1 \<in> {0 ..< 3817158266467286}" by simp
    then show "x \<in> (\<lambda>n. Fin (of_int n)) ` {0 ..< 3817158266467286}"
      unfolding s(3) excelColToIndex_exact [OF s(1) s(2)] by (rule imageI)
  next
    fix x assume "x \<in> (\<lambda>n. Fin (of_int n)) ` {0 ..< 3817158266467286}"
    then obtain n :: int where n: "0 \<le> n" "n < 3817158266467286" "x = Fin (of_int n)" by auto
    from columnNumber_surj [of "nat n"] n(1)
    obtain s where s: "columnLetters s" "columnNumber s - 1 = n" by auto
    from s(1) have l: "list_all upper s" by (simp add: columnLetters_def)
    have "length s \<le> 11"
    proof (rule ccontr)
      assume "\<not> length s \<le> 11"
      then have "12 \<le> length s" by simp
      from twelve_letters_number [OF l this] s(2) n(2) show False by simp
    qed
    with s n(3) show "x \<in> excelColToIndex ` ?D"
      by (auto simp: excelColToIndex_exact intro!: image_eqI [where x = s])
  qed
  have single: "\<forall>c. upper c \<longrightarrow> excelColToIndex [c] = Fin (of_int (uint c - 0x41))"
  proof (intro allI impI)
    fix c assume "upper c"
    then have "columnLetters [c]" by (simp add: columnLetters_def)
    then show "excelColToIndex [c] = Fin (of_int (uint c - 0x41))"
      by (simp add: excelColToIndex_exact columnNumber_def exactStep_def)
  qed
  have vals: "excelColToIndex (ustr ''A'') = Fin 0" "excelColToIndex (ustr ''B'') = Fin 1"
    "excelColToIndex (ustr ''Z'') = Fin 25" "excelColToIndex (ustr ''AA'') = Fin 26"
    by (simp_all add: excelColToIndex_def excelColStep_def toDouble_def roundNat_def ustr_def)
  have mono: "\<forall>s t. columnLetters s \<and> length s \<le> 11 \<and> columnLetters t \<and> length t \<le> 11
            \<and> columnBefore s t \<longrightarrow>
          (\<exists>m n. excelColToIndex s = Fin m \<and> excelColToIndex t = Fin n \<and> m + 1 < n + 1)"
  proof (intro allI impI)
    fix s t
    assume a: "columnLetters s \<and> length s \<le> 11 \<and> columnLetters t \<and> length t \<le> 11
            \<and> columnBefore s t"
    then have "columnNumber s < columnNumber t" by (simp add: columnNumber_mono)
    then have "(of_int (columnNumber s - 1) :: rat) + 1 < of_int (columnNumber t - 1) + 1"
      by simp
    with a show "\<exists>m n. excelColToIndex s = Fin m \<and> excelColToIndex t = Fin n \<and> m + 1 < n + 1"
      using excelColToIndex_exact [of s] excelColToIndex_exact [of t] by blast
  qed
  have twelve: "\<exists>s t. columnLetters s \<and> length s = 12 \<and> columnLetters t \<and> length t = 12
          \<and> s \<noteq> t \<and> excelColToIndex s = excelColToIndex t"
  proof (intro exI conjI)
    show "columnLetters (ustr ''ZZZZZZZZZZZY'')" "columnLetters (ustr ''ZZZZZZZZZZZZ'')"
      by (simp_all add: columnLetters_def upper_def ustr_def)
    show "length (ustr ''ZZZZZZZZZZZY'') = 12" "length (ustr ''ZZZZZZZZZZZZ'') = 12"
      by (simp_all add: ustr_def)
    show "ustr ''ZZZZZZZZZZZY'' \<noteq> ustr ''ZZZZZZZZZZZZ''" by (simp add: ustr_def)
    show "excelColToIndex (ustr ''ZZZZZZZZZZZY'') = excelColToIndex (ustr ''ZZZZZZZZZZZZ'')"
      by (simp only: twelve_letters_round)
  qed
  from inj img have "bij_betw excelColToIndex ?D ((\<lambda>n. Fin (of_int n)) ` {0 ..< 3817158266467286})"
    by (simp add: bij_betw_def)
  with single vals mono twelve show ?thesis by blast
qed

theorem excelColToIndex_bijection_witness:
  "columnLetters (ustr ''Z'') \<and> length (ustr ''Z'') \<le> 11
   \<and> columnLetters (ustr ''AA'') \<and> length (ustr ''AA'') \<le> 11
   \<and> columnBefore (ustr ''Z'') (ustr ''AA'')
   \<and> (\<exists>m n. excelColToIndex (ustr ''Z'') = Fin m \<and> excelColToIndex (ustr ''AA'') = Fin n
          \<and> m + 1 < n + 1)
   \<and> upper 0x51 \<and> excelColToIndex [0x51] = Fin 16"
proof -
  have h: "columnLetters (ustr ''Z'') \<and> length (ustr ''Z'') \<le> 11
           \<and> columnLetters (ustr ''AA'') \<and> length (ustr ''AA'') \<le> 11
           \<and> columnBefore (ustr ''Z'') (ustr ''AA'')"
    by (simp add: columnLetters_def columnBefore_def upper_def ustr_def)
  have u: "upper 0x51" by (simp add: upper_def)
  from excelColToIndex_bijection h
  have "\<exists>m n. excelColToIndex (ustr ''Z'') = Fin m \<and> excelColToIndex (ustr ''AA'') = Fin n
          \<and> m + 1 < n + 1" by blast
  moreover from excelColToIndex_bijection u have "excelColToIndex [0x51] = Fin 16" by simp
  ultimately show ?thesis using h u by blast
qed

theorem twelve_letters_counterexample:
  "columnLetters (ustr ''ZZZZZZZZZZZY'') \<and> columnLetters (ustr ''ZZZZZZZZZZZZ'')
   \<and> columnBefore (ustr ''ZZZZZZZZZZZY'') (ustr ''ZZZZZZZZZZZZ'')
   \<and> excelColToIndex (ustr ''ZZZZZZZZZZZY'') = Fin 99246114928149472
   \<and> excelColToIndex (ustr ''ZZZZZZZZZZZZ'') = Fin 99246114928149472"
proof -
  have "columnLetters (ustr ''ZZZZZZZZZZZY'') \<and> columnLetters (ustr ''ZZZZZZZZZZZZ'')
   \<and> columnBefore (ustr ''ZZZZZZZZZZZY'') (ustr ''ZZZZZZZZZZZZ'')"
    by (simp add: columnLetters_def columnBefore_def upper_def ustr_def)
  with twelve_letters_round show ?thesis by simp
qed

subsection \<open>The two loops of the tabular branch\<close>

lemma mapColumn_split:
  "mapColumn rt typ r i mp (m, errs, h) =
     (columnStore rt typ r i mp m, errs @ columnErrors rt typ r i mp,
      h \<or> columnErrors rt typ r i mp \<noteq> [])"
  by (simp add: mapColumn_def columnStore_def columnErrors_def Let_def split: sum.splits)

lemma columnErrors_row: "e \<in> set (columnErrors rt typ r i mp) \<Longrightarrow> row e = Suc i"
  by (auto simp: columnErrors_def mapColumn_def Let_def split: sum.splits if_splits)

lemma fold_mapColumn:
  "fold (mapColumn rt typ r i) cols (m, errs, h) =
     (fold (columnStore rt typ r i) cols m,
      errs @ concat (map (columnErrors rt typ r i) cols),
      h \<or> concat (map (columnErrors rt typ r i) cols) \<noteq> [])"
  by (induction cols arbitrary: m errs h) (simp_all add: mapColumn_split)

lemma tabularRow_eq:
  "tabularRow rt fd t i =
     (fold (columnStore rt (md_type (metadata fd)) (rows fd ! i) i) (columns t) emptyObject,
      concat (map (columnErrors rt (md_type (metadata fd)) (rows fd ! i) i) (columns t)),
      concat (map (columnErrors rt (md_type (metadata fd)) (rows fd ! i) i) (columns t)) \<noteq> [])"
  by (simp add: tabularRow_def fold_mapColumn)

lemma tabularRow_hasError: "snd (snd (tabularRow rt fd t i)) \<longleftrightarrow> fst (snd (tabularRow rt fd t i)) \<noteq> []"
  by (simp add: tabularRow_eq)

lemma tabularRow_row: "e \<in> set (fst (snd (tabularRow rt fd t i))) \<Longrightarrow> row e = Suc i"
  by (auto simp: tabularRow_eq dest: columnErrors_row)

lemma mapRow_eq:
  "mapRow rt (md_type (metadata fd)) (rows fd) (columns t) i (acc, errs) =
     (acc @ (if fst (snd (tabularRow rt fd t i)) = [] then [fst (tabularRow rt fd t i)] else []),
      errs @ fst (snd (tabularRow rt fd t i)))"
  by (simp add: mapRow_def Let_def fold_mapColumn tabularRow_eq)

lemma fold_mapRow:
  "fold (mapRow rt (md_type (metadata fd)) (rows fd) (columns t)) is (acc, errs) =
     (acc @ concat (map (\<lambda>i. if fst (snd (tabularRow rt fd t i)) = []
                             then [fst (tabularRow rt fd t i)] else []) is),
      errs @ concat (map (\<lambda>i. fst (snd (tabularRow rt fd t i))) is))"
  by (induction "is" arbitrary: acc errs) (simp_all add: mapRow_eq)

lemma applyTabular_eq:
  "applyTabular rt fd t =
     \<lparr>r_headers = map name (columns t),
      r_rows = concat (map (\<lambda>i. if fst (snd (tabularRow rt fd t i)) = []
                                then [fst (tabularRow rt fd t i)] else [])
                          [skipRows t ..< length (rows fd)]),
      totalRows = int (length (rows fd)) - int (skipRows t),
      mappedRows = int (length (concat (map (\<lambda>i. if fst (snd (tabularRow rt fd t i)) = []
                                then [fst (tabularRow rt fd t i)] else [])
                          [skipRows t ..< length (rows fd)]))),
      errorRows = int (length (concat (map (\<lambda>i. fst (snd (tabularRow rt fd t i)))
                          [skipRows t ..< length (rows fd)]))),
      errors = concat (map (\<lambda>i. fst (snd (tabularRow rt fd t i)))
                          [skipRows t ..< length (rows fd)])\<rparr>"
  by (simp add: applyTabular_def Let_def fold_mapRow)

lemma filter_concat_rows:
  assumes "distinct is" "\<And>i e. e \<in> set (f i) \<Longrightarrow> row e = Suc i"
  shows "filter (\<lambda>e. row e = Suc j) (concat (map f is)) = (if j \<in> set is then f j else [])"
  using assms(1)
proof (induction "is")
  case Nil
  then show ?case by simp
next
  case (Cons i "is")
  have own: "filter (\<lambda>e. row e = Suc j) (f i) = (if i = j then f i else [])"
    using assms(2) [of _ i] by (auto simp: filter_empty_conv intro: filter_True)
  from Cons show ?case by (auto simp: own)
qed

lemma errorsOfRow_tabular:
  "i \<in> set [skipRows t ..< length (rows fd)] \<Longrightarrow>
     errorsOfRow (applyTabular rt fd t) (Suc i) = fst (snd (tabularRow rt fd t i))"
  using filter_concat_rows [of "[skipRows t ..< length (rows fd)]"
      "\<lambda>i. fst (snd (tabularRow rt fd t i))" i]
  by (simp add: errorsOfRow_def applyTabular_eq tabularRow_row)

lemma applyTabular_rows:
  "r_rows (applyTabular rt fd t) =
     concat (map (\<lambda>n. if errorsOfRow (applyTabular rt fd t) n = []
                       then [fst (tabularRow rt fd t (n - 1))] else [])
                 (map Suc [skipRows t ..< length (rows fd)]))"
proof -
  have "r_rows (applyTabular rt fd t) =
     concat (map (\<lambda>i. if fst (snd (tabularRow rt fd t i)) = []
                                then [fst (tabularRow rt fd t i)] else [])
                          [skipRows t ..< length (rows fd)])"
    by (simp add: applyTabular_eq)
  also have "\<dots> = concat (map (\<lambda>i. if errorsOfRow (applyTabular rt fd t) (Suc i) = []
                       then [fst (tabularRow rt fd t (Suc i - 1))] else [])
                 [skipRows t ..< length (rows fd)])"
    by (rule arg_cong [where f = concat], rule map_cong) (simp_all add: errorsOfRow_tabular)
  finally show ?thesis by (simp add: o_def)
qed

subsection \<open>The free-text branch\<close>

lemma requiredError_row:
  "\<forall>e \<in> set errs. row e = 1 \<Longrightarrow> \<forall>e \<in> set (requiredError mp txt errs). row e = 1"
  by (simp add: requiredError_def)

lemma pdfColumn_row:
  assumes "pdfColumn rt content t mp (m, errs) = Inr (m', errs')" "\<forall>e \<in> set errs. row e = 1"
  shows "\<forall>e \<in> set errs'. row e = 1"
  using assms requiredError_row [OF assms(2)]
  by (auto simp: pdfColumn_def Let_def split: option.splits if_splits jsval.splits jsprim.splits sum.splits)

lemma pdfColumns_row:
  "pdfColumns rt content t cols (m, errs) = Inr (m', errs') \<Longrightarrow> \<forall>e \<in> set errs. row e = 1 \<Longrightarrow>
     \<forall>e \<in> set errs'. row e = 1"
proof (induction cols arbitrary: m errs)
  case Nil
  then show ?case by simp
next
  case (Cons mp cols)
  from Cons.prems(1) obtain m1 errs1 where
    1: "pdfColumn rt content t mp (m, errs) = Inr (m1, errs1)" and
    2: "pdfColumns rt content t cols (m1, errs1) = Inr (m', errs')"
    by (auto split: sum.splits)
  from pdfColumn_row [OF 1 Cons.prems(2)] Cons.IH [OF 2] show ?case by blast
qed

lemma applyPdfTemplate_rows:
  assumes "applyPdfTemplate rt fd t = Inr res"
  shows "(\<forall>e \<in> set (errors res). row e = 1) \<and>
         r_rows res = (if errors res = [] then
            [case pdfColumns rt (pdfContentOf rt fd) t (columns t) (emptyObject, []) of
               Inl e \<Rightarrow> emptyObject | Inr st \<Rightarrow> fst st] else []) \<and>
         totalRows res = 1 \<and> mappedRows res = int (length (r_rows res)) \<and>
         errorRows res = int (length (errors res))"
proof -
  from assms obtain m errs where
    1: "pdfColumns rt (pdfContentOf rt fd) t (columns t) (emptyObject, []) = Inr (m, errs)"
    by (auto simp: applyPdfTemplate_def split: sum.splits)
  with assms have res: "res = \<lparr>r_headers = map name (columns t),
                   r_rows = (if 0 < length errs then [] else [m]),
                   totalRows = 1,
                   mappedRows = (if 0 < length errs then 0 else 1),
                   errorRows = int (length errs),
                   errors = errs\<rparr>"
    by (simp add: applyPdfTemplate_def Let_def)
  from pdfColumns_row [OF 1] have "\<forall>e \<in> set errs. row e = 1" by simp
  with 1 show ?thesis by (simp add: res)
qed

lemma applyTemplate_tabular:
  "\<not> onPdfPath fd t \<Longrightarrow> applyTemplate rt fd t = Inr (applyTabular rt fd t)"
  by (auto simp: applyTemplate_def onPdfPath_def)

lemma applyTemplate_pdf:
  "onPdfPath fd t \<Longrightarrow> applyTemplate rt fd t = Inr res \<Longrightarrow> applyPdfTemplate rt fd t = Inr res"
  by (auto simp: applyTemplate_def onPdfPath_def split: sum.splits)

subsection \<open>Counting rows\<close>

lemma length_concat_singletons:
  "length (concat (map (\<lambda>i. if P i then [f i] else []) is)) = length (filter P is)"
  by (induction "is") simp_all

lemma rows_of_concat:
  assumes "\<And>i e. e \<in> set (f i) \<Longrightarrow> row e = Suc i"
  shows "row ` set (concat (map f is)) = Suc ` set (filter (\<lambda>i. f i \<noteq> []) is)"
proof (induction "is")
  case Nil
  then show ?case by simp
next
  case (Cons i "is")
  have "row ` set (f i) = (if f i = [] then {} else {Suc i})"
    using assms [of _ i] by (cases "f i") auto
  with Cons show ?case by (simp add: image_Un)
qed

lemma failing_rows_count:
  assumes "distinct is" "\<And>i e. e \<in> set (f i) \<Longrightarrow> row e = Suc i"
  shows "length (concat (map (\<lambda>i. if f i = [] then [g i] else []) is))
           + card (row ` set (concat (map f is))) = length is"
proof -
  have "distinct (filter (\<lambda>i. f i \<noteq> []) is)" using assms(1) by simp
  then have "card (set (filter (\<lambda>i. f i \<noteq> []) is)) = length (filter (\<lambda>i. f i \<noteq> []) is)"
    by (rule distinct_card)
  then have c: "card (Suc ` set (filter (\<lambda>i. f i \<noteq> []) is)) = length (filter (\<lambda>i. f i \<noteq> []) is)"
    by (simp only: card_image [OF inj_Suc])
  have r: "row ` set (concat (map f is)) = Suc ` set (filter (\<lambda>i. f i \<noteq> []) is)"
    by (rule rows_of_concat) (rule assms(2))
  show ?thesis
    unfolding r c length_concat_singletons
    using sum_length_filter_compl [of "\<lambda>i. f i = []" "is"] by simp
qed

lemma applyTabular_totals:
  "mappedRows (applyTabular rt fd t) = int (length (r_rows (applyTabular rt fd t)))"
  "errorRows (applyTabular rt fd t) = int (length (errors (applyTabular rt fd t)))"
  "totalRows (applyTabular rt fd t) = int (length (rows fd)) - int (skipRows t)"
  by (simp_all add: applyTabular_eq)

lemma applyTabular_failing_rows:
  assumes "skipRows t \<le> length (rows fd)"
  shows "mappedRows (applyTabular rt fd t) + int (card (row ` set (errors (applyTabular rt fd t))))
           = totalRows (applyTabular rt fd t)"
proof -
  have "length (r_rows (applyTabular rt fd t)) + card (row ` set (errors (applyTabular rt fd t)))
          = length [skipRows t ..< length (rows fd)]"
    using failing_rows_count [of "[skipRows t ..< length (rows fd)]"
        "\<lambda>i. fst (snd (tabularRow rt fd t i))" "\<lambda>i. fst (tabularRow rt fd t i)"]
    by (simp add: applyTabular_eq tabularRow_row)
  then have "int (length (r_rows (applyTabular rt fd t)))
          + int (card (row ` set (errors (applyTabular rt fd t))))
          = int (length (rows fd) - skipRows t)"
    by (metis length_upt of_nat_add)
  with assms show ?thesis by (simp add: applyTabular_totals)
qed

lemma card_rows_le: "card (row ` set errs) \<le> length errs"
  by (metis card_image_le card_length le_trans List.finite_set)

subsection \<open>Fields stored in a mapped record\<close>

lemma setProp_keeps: "dom (props obj) \<subseteq> dom (props (setProp obj key v))"
  by (auto simp: setProp_def)

lemma setProp_stores: "key \<noteq> protoKey \<Longrightarrow> key \<in> dom (props (setProp obj key v))"
  by (simp add: setProp_def)

lemma columnStore_keeps: "dom (props m) \<subseteq> dom (props (columnStore rt typ r i mp m))"
  using setProp_keeps [of m]
  by (auto simp: columnStore_def mapColumn_def Let_def split: sum.splits if_splits)

lemma columnStore_stores:
  "columnErrors rt typ r i mp = [] \<Longrightarrow> name mp \<noteq> protoKey \<Longrightarrow>
     name mp \<in> dom (props (columnStore rt typ r i mp m))"
  using setProp_stores [of "name mp" m]
  by (auto simp: columnErrors_def columnStore_def mapColumn_def Let_def
           split: sum.splits if_splits)

lemma fold_columnStore_keeps:
  "dom (props m) \<subseteq> dom (props (fold (columnStore rt typ r i) cols m))"
proof (induction cols arbitrary: m)
  case Nil
  then show ?case by simp
next
  case (Cons mp cols)
  from columnStore_keeps [of m rt "typ" r i mp] Cons [of "columnStore rt typ r i mp m"]
  have "dom (props m) \<subseteq> dom (props (fold (columnStore rt typ r i) cols (columnStore rt typ r i mp m)))"
    by (rule subset_trans)
  then show ?case by simp
qed

lemma fold_columnStore_stores:
  "concat (map (columnErrors rt typ r i) cols) = [] \<Longrightarrow> mp \<in> set cols \<Longrightarrow>
     name mp \<noteq> protoKey \<Longrightarrow> name mp \<in> dom (props (fold (columnStore rt typ r i) cols m))"
proof (induction cols arbitrary: m)
  case Nil
  then show ?case by simp
next
  case (Cons c cols)
  from Cons.prems(1) have e: "columnErrors rt typ r i c = []"
    "concat (map (columnErrors rt typ r i) cols) = []" by simp_all
  show ?case
  proof (cases "mp \<in> set cols")
    case True
    from Cons.IH [OF e(2) True Cons.prems(3)] show ?thesis by simp
  next
    case False
    with Cons.prems(2) have "mp = c" by simp
    with columnStore_stores [OF e(1), of m] Cons.prems(3)
    have "name mp \<in> dom (props (columnStore rt typ r i c m))" by simp
    with fold_columnStore_keeps [of "columnStore rt typ r i c m" rt "typ" r i cols]
    show ?thesis by auto
  qed
qed

lemma tabularRow_complete:
  "fst (snd (tabularRow rt fd t i)) = [] \<Longrightarrow> mp \<in> set (columns t) \<Longrightarrow>
     name mp \<noteq> protoKey \<Longrightarrow> name mp \<in> dom (props (fst (tabularRow rt fd t i)))"
  using fold_columnStore_stores [of rt "md_type (metadata fd)" "rows fd ! i" i "columns t" mp
      emptyObject]
  by (simp add: tabularRow_eq)

lemma requiredError_empty:
  "requiredError mp txt errs = [] \<longleftrightarrow> errs = [] \<and> \<not> required mp"
  by (simp add: requiredError_def)

lemma pdfColumn_required:
  assumes "pdfColumn rt content t mp (m, errs) = Inr (m', [])"
  shows "errs = [] \<and> dom (props m) \<subseteq> dom (props m')
       \<and> (required mp \<longrightarrow> name mp \<noteq> protoKey \<longrightarrow> name mp \<in> dom (props m'))"
proof -
  have k: "\<And>v x y. props m x = Some y \<Longrightarrow> \<exists>z. props (setProp m (name mp) v) x = Some z"
    using setProp_keeps [of m "name mp"] by (auto simp: dom_def subset_iff)
  have s: "\<And>v. name mp \<noteq> protoKey \<Longrightarrow> \<exists>z. props (setProp m (name mp) v) (name mp) = Some z"
    using setProp_stores [of "name mp" m] by (auto simp: dom_def)
  from assms show ?thesis
    by (auto simp: pdfColumn_def requiredError_empty Let_def dest: k s
             split: option.splits if_splits jsval.splits jsprim.splits sum.splits)
qed

lemma pdfColumns_required:
  "pdfColumns rt content t cols (m, errs) = Inr (m', []) \<Longrightarrow>
     errs = [] \<and> dom (props m) \<subseteq> dom (props m')
     \<and> (\<forall>mp \<in> set cols. required mp \<longrightarrow> name mp \<noteq> protoKey \<longrightarrow> name mp \<in> dom (props m'))"
proof (induction cols arbitrary: m errs)
  case Nil
  then show ?case by simp
next
  case (Cons mp cols)
  from Cons.prems obtain m1 errs1 where
    1: "pdfColumn rt content t mp (m, errs) = Inr (m1, errs1)" and
    2: "pdfColumns rt content t cols (m1, errs1) = Inr (m', [])"
    by (auto split: sum.splits)
  from Cons.IH [OF 2] have 3: "errs1 = []" "dom (props m1) \<subseteq> dom (props m')"
    "\<forall>mp \<in> set cols. required mp \<longrightarrow> name mp \<noteq> protoKey \<longrightarrow> name mp \<in> dom (props m')"
    by simp_all
  from pdfColumn_required [OF 1 [unfolded 3(1)]]
  have 4: "errs = []" "dom (props m) \<subseteq> dom (props m1)"
    "required mp \<longrightarrow> name mp \<noteq> protoKey \<longrightarrow> name mp \<in> dom (props m1)" by simp_all
  from 4(2) 3(2) have "dom (props m) \<subseteq> dom (props m')" by (rule subset_trans)
  moreover from 4(3) 3(2)
  have "required mp \<longrightarrow> name mp \<noteq> protoKey \<longrightarrow> name mp \<in> dom (props m')" by blast
  ultimately show ?case using 4(1) 3(3) by simp
qed

lemma applyPdfTemplate_complete:
  assumes "applyPdfTemplate rt fd t = Inr res" "errors res = []"
  shows "\<forall>mp \<in> set (columns t). required mp \<longrightarrow> name mp \<noteq> protoKey \<longrightarrow>
           name mp \<in> dom (props (case pdfColumns rt (pdfContentOf rt fd) t (columns t)
                                        (emptyObject, []) of
                                   Inl e \<Rightarrow> emptyObject | Inr st \<Rightarrow> fst st))"
proof -
  from assms(1) obtain m errs where
    1: "pdfColumns rt (pdfContentOf rt fd) t (columns t) (emptyObject, []) = Inr (m, errs)"
    by (auto simp: applyPdfTemplate_def split: sum.splits)
  with assms have "errs = []" by (auto simp: applyPdfTemplate_def Let_def)
  with 1 pdfColumns_required [of rt "pdfContentOf rt fd" t "columns t" emptyObject "[]" m]
  show ?thesis by simp
qed

subsection \<open>The examples, evaluated\<close>

lemmas engine_defs =
  applyTemplate_def applyTabular_def applyPdfTemplate_def mapRow_def mapColumn_def
  resolveValue_def convertDataType_def pdfColumn_def requiredError_def patternOf_def
  pdfContentOf_def group1_def getProp_def setProp_def emptyObject_def protoKey_def
  fromObjectPrototype_def fromArrayPrototype_def
  excelColToIndex_def excelColStep_def toDouble_def roundNat_def Let_def

lemmas example_defs =
  exampleRuntime_def exampleStringToNumber_def exampleStringMatch_def blank_def digit_def
  digitsValue_def exampleObjectPrototypeNames_def exampleArrayPrototypeNames_def
  exampleBuiltinToString_def exampleBuiltinToNumber_def exampleNumberToString_def numberKey_def
  plain_def aColumn_def aDocument_def aTemplate_def
  sheetDoc_def sheetTemplate_def bareDoc_def bareTemplate_def priceDoc_def
  priceTemplate_def priceRow_def priceColumn_def textDoc_def totalTemplate_def
  onPdfPath_def rowNumbers_def errorsOfRow_def

lemma sheet_result: "applyTemplate exampleRuntime sheetDoc (sheetTemplate 0) = Inr sheetResult"
  by (simp add: engine_defs example_defs sheetResult_def upt_rec ustr_def)

lemma bare_result: "applyTemplate exampleRuntime bareDoc bareTemplate = Inr bareResult"
  by (simp add: engine_defs example_defs bareResult_def upt_rec ustr_def)

lemma price_result:
  "applyTemplate exampleRuntime (priceDoc (JStr (ustr ''12''))) (priceTemplate kind False DNumber)
     = Inr priceResult"
  by (simp add: engine_defs example_defs priceResult_def upt_rec ustr_def)

subsection \<open>Rows are mapped whole or not at all\<close>

text \<open>
  C1. Whenever \<^verbatim>\<open>applyTemplate\<close> returns a result, its \<^verbatim>\<open>rows\<close> are, in the order of the
  processed rows, exactly one record (the \<^verbatim>\<open>mappedRow\<close> that the loop over all the columns
  built) for each row that has no entry in \<^verbatim>\<open>errors\<close>, and nothing for a row that has one;
  the row numbers are distinct and every entry of \<^verbatim>\<open>errors\<close> carries one of them. On the
  free-text branch the only row is the synthetic row 1. The record of a row without errors
  is not partial: apart from a field named \<^verbatim>\<open>__proto__\<close>, which an assignment does not
  store, it has every field of the template on the tabular branch and every required field
  on the free-text branch.
\<close>

theorem applyTemplate_all_or_nothing:
  assumes "applyTemplate rt fileData template = Inr result"
  shows "r_rows result =
           concat (map (\<lambda>n. if errorsOfRow result n = []
                             then [recordOfRow rt fileData template n] else [])
                       (rowNumbers fileData template))
         \<and> distinct (rowNumbers fileData template)
         \<and> row ` set (errors result) \<subseteq> set (rowNumbers fileData template)
         \<and> (\<forall>n \<in> set (rowNumbers fileData template). errorsOfRow result n = [] \<longrightarrow>
              (\<forall>mapping \<in> set (columns template).
                 (required mapping \<or> \<not> onPdfPath fileData template)
                   \<and> name mapping \<noteq> protoKey \<longrightarrow>
                 name mapping \<in> dom (props (recordOfRow rt fileData template n))))"
proof (cases "onPdfPath fileData template")
  case True
  note pdf = applyTemplate_pdf [OF True assms]
  from applyPdfTemplate_rows [OF pdf]
  have 1: "\<forall>e \<in> set (errors result). row e = 1"
    and 2: "r_rows result = (if errors result = [] then
            [case pdfColumns rt (pdfContentOf rt fileData) template (columns template)
                    (emptyObject, []) of
               Inl e \<Rightarrow> emptyObject | Inr st \<Rightarrow> fst st] else [])"
    by simp_all
  from 1 have 3: "errorsOfRow result 1 = errors result"
    by (simp add: errorsOfRow_def)
  have 4: "errorsOfRow result 1 = [] \<longrightarrow>
              (\<forall>mapping \<in> set (columns template).
                 required mapping \<and> name mapping \<noteq> protoKey \<longrightarrow>
                 name mapping \<in> dom (props (recordOfRow rt fileData template 1)))"
  proof
    assume "errorsOfRow result 1 = []"
    with 3 have "errors result = []" by simp
    from applyPdfTemplate_complete [OF pdf this] True
    show "\<forall>mapping \<in> set (columns template).
                 required mapping \<and> name mapping \<noteq> protoKey \<longrightarrow>
                 name mapping \<in> dom (props (recordOfRow rt fileData template 1))"
      by (simp add: recordOfRow_def)
  qed
  from 1 2 3 True have "r_rows result =
           concat (map (\<lambda>n. if errorsOfRow result n = []
                             then [recordOfRow rt fileData template n] else [])
                       (rowNumbers fileData template))
         \<and> distinct (rowNumbers fileData template)
         \<and> row ` set (errors result) \<subseteq> set (rowNumbers fileData template)"
    by (auto simp: rowNumbers_def recordOfRow_def)
  with 4 True show ?thesis by (simp add: rowNumbers_def)
next
  case False
  with assms have res: "result = applyTabular rt fileData template"
    by (simp add: applyTemplate_tabular)
  have rec: "\<And>n. recordOfRow rt fileData template n = fst (tabularRow rt fileData template (n - 1))"
    using False by (simp add: recordOfRow_def)
  have "row ` set (errors result) \<subseteq> set (rowNumbers fileData template)"
    using False by (auto simp: res applyTabular_eq rowNumbers_def dest!: tabularRow_row)
  moreover have "distinct (rowNumbers fileData template)"
    using False by (simp add: rowNumbers_def distinct_map)
  moreover have "r_rows result =
           concat (map (\<lambda>n. if errorsOfRow result n = []
                             then [recordOfRow rt fileData template n] else [])
                       (rowNumbers fileData template))"
    using False applyTabular_rows [of rt fileData template]
    by (simp add: res rowNumbers_def rec cong: if_cong)
  moreover have "\<forall>n \<in> set (rowNumbers fileData template). errorsOfRow result n = [] \<longrightarrow>
              (\<forall>mapping \<in> set (columns template).
                 (required mapping \<or> \<not> onPdfPath fileData template)
                   \<and> name mapping \<noteq> protoKey \<longrightarrow>
                 name mapping \<in> dom (props (recordOfRow rt fileData template n)))"
  proof (intro ballI impI)
    fix n mapping
    assume n: "n \<in> set (rowNumbers fileData template)" and e: "errorsOfRow result n = []"
      and m: "mapping \<in> set (columns template)"
      and p: "(required mapping \<or> \<not> onPdfPath fileData template) \<and> name mapping \<noteq> protoKey"
    from n False have "n \<in> Suc ` set [skipRows template ..< length (rows fileData)]"
      by (simp only: rowNumbers_def if_False set_map)
    then obtain i where i: "n = Suc i" "i \<in> set [skipRows template ..< length (rows fileData)]"
      by blast
    from e have "fst (snd (tabularRow rt fileData template i)) = []"
      using errorsOfRow_tabular [OF i(2), of rt] by (simp add: res i(1))
    from tabularRow_complete [OF this m] p
    show "name mapping \<in> dom (props (recordOfRow rt fileData template n))"
      by (simp add: rec i(1))
  qed
  ultimately show ?thesis by simp
qed

theorem applyTemplate_all_or_nothing_witness:
  "applyTemplate exampleRuntime sheetDoc (sheetTemplate 0) = Inr sheetResult
     \<and> rowNumbers sheetDoc (sheetTemplate 0) = [1, 2]
     \<and> errorsOfRow sheetResult 1 = [] \<and> errorsOfRow sheetResult 2 \<noteq> []
     \<and> r_rows sheetResult = [recordOfRow exampleRuntime sheetDoc (sheetTemplate 0) 1]
     \<and> columns (sheetTemplate 0) = [aColumn ''id'' ''A'' True DString]
     \<and> required (aColumn ''id'' ''A'' True DString)
     \<and> name (aColumn ''id'' ''A'' True DString) \<noteq> protoKey
     \<and> name (aColumn ''id'' ''A'' True DString)
          \<in> dom (props (recordOfRow exampleRuntime sheetDoc (sheetTemplate 0) 1))"
proof -
  have n: "rowNumbers sheetDoc (sheetTemplate 0) = [1, 2]"
    by (simp add: example_defs upt_rec)
  have e: "errorsOfRow sheetResult 1 = [] \<and> errorsOfRow sheetResult 2 \<noteq> []"
    by (simp add: errorsOfRow_def sheetResult_def)
  have c: "columns (sheetTemplate 0) = [aColumn ''id'' ''A'' True DString]"
    "required (aColumn ''id'' ''A'' True DString)"
    "name (aColumn ''id'' ''A'' True DString) \<noteq> protoKey"
    by (simp_all add: sheetTemplate_def aTemplate_def aColumn_def protoKey_def ustr_def)
  show ?thesis
    using applyTemplate_all_or_nothing [OF sheet_result] sheet_result e c
    by (simp add: n)
qed

subsection \<open>Totals, rows skipped past the end, and mismatched kinds\<close>

text \<open>
  C2, as the code has it. \<^verbatim>\<open>mappedRows\<close> counts the mapped records and \<^verbatim>\<open>errorRows\<close> counts
  the entries of \<^verbatim>\<open>errors\<close> (a row with several failing fields is counted once for each);
  \<^verbatim>\<open>totalRows\<close> is 1 on the free-text branch and \<^verbatim>\<open>rows.length - skipRows\<close> on the tabular
  branch. The mapped records and the distinct row numbers in \<^verbatim>\<open>errors\<close> add up to
  \<^verbatim>\<open>totalRows\<close> on the free-text branch and whenever \<^verbatim>\<open>skipRows\<close> does not exceed the number
  of rows; so \<^verbatim>\<open>mappedRows + errorRows\<close> is at least \<^verbatim>\<open>totalRows\<close>.
\<close>

theorem applyTemplate_totals:
  assumes "applyTemplate rt fileData template = Inr result"
  shows "mappedRows result = int (length (r_rows result))
       \<and> errorRows result = int (length (errors result))
       \<and> totalRows result =
            (if onPdfPath fileData template then 1
             else int (length (rows fileData)) - int (skipRows template))
       \<and> (onPdfPath fileData template \<or> skipRows template \<le> length (rows fileData) \<longrightarrow>
            mappedRows result + int (card (row ` set (errors result))) = totalRows result)
       \<and> totalRows result \<le> mappedRows result + errorRows result"
proof (cases "onPdfPath fileData template")
  case True
  from applyPdfTemplate_rows [OF applyTemplate_pdf [OF True assms]]
  have 1: "\<forall>e \<in> set (errors result). row e = 1"
    and 2: "length (r_rows result) = (if errors result = [] then 1 else 0)"
    and 3: "totalRows result = 1" "mappedRows result = int (length (r_rows result))"
      "errorRows result = int (length (errors result))"
    by simp_all
  have "row ` set (errors result) = (if errors result = [] then {} else {1})"
    using 1 by (cases "errors result") auto
  then have 4: "card (row ` set (errors result)) = (if errors result = [] then 0 else 1)"
    by simp
  have 5: "errors result \<noteq> [] \<longrightarrow> 1 \<le> length (errors result)"
    by (cases "errors result") simp_all
  from True 2 3 4 5 show ?thesis by auto
next
  case False
  with assms have res: "result = applyTabular rt fileData template"
    by (simp add: applyTemplate_tabular)
  have a: "skipRows template \<le> length (rows fileData) \<longrightarrow>
            mappedRows result + int (card (row ` set (errors result))) = totalRows result"
    unfolding res using applyTabular_failing_rows by blast
  have b: "totalRows result \<le> mappedRows result + errorRows result"
  proof (cases "skipRows template \<le> length (rows fileData)")
    case True
    with a card_rows_le [of "errors result"] show ?thesis
      by (simp add: res applyTabular_totals)
  next
    case False
    then show ?thesis by (simp add: res applyTabular_totals)
  qed
  from False a b show ?thesis by (simp add: res applyTabular_totals)
qed

theorem applyTemplate_totals_witness:
  "applyTemplate exampleRuntime sheetDoc (sheetTemplate 0) = Inr sheetResult
   \<and> skipRows (sheetTemplate 0) \<le> length (rows sheetDoc)
   \<and> totalRows sheetResult = 2 \<and> mappedRows sheetResult = 1
   \<and> mappedRows sheetResult + int (card (row ` set (errors sheetResult))) = totalRows sheetResult"
proof -
  have h: "skipRows (sheetTemplate 0) \<le> length (rows sheetDoc)"
    by (simp add: example_defs)
  have v: "totalRows sheetResult = 2 \<and> mappedRows sheetResult = 1"
    by (simp add: sheetResult_def)
  show ?thesis using applyTemplate_totals [OF sheet_result] sheet_result h v by simp
qed

theorem totals_counterexample:
  "applyTemplate exampleRuntime bareDoc bareTemplate = Inr bareResult
   \<and> mappedRows bareResult + errorRows bareResult \<noteq> totalRows bareResult"
  using bare_result by (simp add: bareResult_def)

text \<open>
  C10. On the tabular branch, when \<^verbatim>\<open>skipRows\<close> exceeds the number of rows of the document,
  \<^verbatim>\<open>applyTemplate\<close> returns a result with no mapped row and no error, whose \<^verbatim>\<open>totalRows\<close>
  is \<^verbatim>\<open>rows.length - skipRows\<close>, a negative number.
\<close>

theorem skipRows_beyond_rows:
  assumes "\<not> onPdfPath fileData template" "length (rows fileData) < skipRows template"
  shows "\<exists>result. applyTemplate rt fileData template = Inr result
           \<and> r_rows result = [] \<and> errors result = []
           \<and> totalRows result = int (length (rows fileData)) - int (skipRows template)
           \<and> totalRows result < 0"
  using assms by (simp add: applyTemplate_tabular applyTabular_eq)

theorem skipRows_beyond_rows_witness:
  "\<not> onPdfPath sheetDoc (sheetTemplate 3) \<and> length (rows sheetDoc) < skipRows (sheetTemplate 3)
   \<and> (\<exists>result. applyTemplate exampleRuntime sheetDoc (sheetTemplate 3) = Inr result
           \<and> r_rows result = [] \<and> errors result = [] \<and> totalRows result = - 1)"
proof -
  have h: "\<not> onPdfPath sheetDoc (sheetTemplate 3)" "length (rows sheetDoc) < skipRows (sheetTemplate 3)"
    by (simp_all add: example_defs)
  have "int (length (rows sheetDoc)) - int (skipRows (sheetTemplate 3)) = - 1"
    by (simp add: example_defs)
  with skipRows_beyond_rows [OF h, of exampleRuntime] h show ?thesis by auto
qed

text \<open>
  C4, as the code has it. When the kind of the template differs from the kind of the
  document, \<^verbatim>\<open>applyTemplate\<close> raises nothing: it runs the tabular loop over the rows of the
  document (reading a cell by column letter when the document is a spreadsheet and by key
  otherwise) and returns the result of that loop, with its mapped rows and row errors.
\<close>

theorem kind_mismatch_runs_tabular:
  assumes "fileType template \<noteq> md_type (metadata fileData)"
  shows "applyTemplate rt fileData template = Inr (applyTabular rt fileData template)"
  using assms by (intro applyTemplate_tabular) (auto simp: onPdfPath_def)

theorem kind_mismatch_runs_tabular_witness:
  "fileType (priceTemplate Pdf False DNumber) \<noteq> md_type (metadata (priceDoc (JStr (ustr ''12''))))
   \<and> applyTemplate exampleRuntime (priceDoc (JStr (ustr ''12''))) (priceTemplate Pdf False DNumber)
       = Inr (applyTabular exampleRuntime (priceDoc (JStr (ustr ''12''))) (priceTemplate Pdf False DNumber))
   \<and> applyTabular exampleRuntime (priceDoc (JStr (ustr ''12''))) (priceTemplate Pdf False DNumber)
       = priceResult"
proof -
  have h: "fileType (priceTemplate Pdf False DNumber)
             \<noteq> md_type (metadata (priceDoc (JStr (ustr ''12''))))"
    by (simp add: example_defs)
  from kind_mismatch_runs_tabular [OF h, of exampleRuntime] price_result [of Pdf] h
  show ?thesis by simp
qed

theorem kind_mismatch_counterexample:
  "fileType (priceTemplate Pdf False DNumber) \<noteq> md_type (metadata (priceDoc (JStr (ustr ''12''))))
   \<and> applyTemplate exampleRuntime (priceDoc (JStr (ustr ''12''))) (priceTemplate Pdf False DNumber)
       = Inr priceResult
   \<and> r_rows priceResult \<noteq> []"
  using price_result [of Pdf]
  by (simp add: example_defs priceResult_def)

subsection \<open>Texts within the messages\<close>

lemma str_includes_middle: "str_includes (p @ needle @ s) needle"
proof (induction p)
  case Nil
  have "take (length needle) (needle @ s) = needle" by simp
  then show ?case by (cases "needle @ s") auto
next
  case (Cons c p)
  then show ?case by simp
qed

lemma str_includes_append: "str_includes xs needle \<Longrightarrow> str_includes (p @ xs) needle"
proof (induction p)
  case Nil
  then show ?case by simp
next
  case (Cons c p)
  then show ?case by simp
qed

lemma word_number_in_text: "str_includes (p @ txt_not_a_number) word_number"
  by (rule str_includes_append) (simp add: txt_not_a_number_def word_number_def)

lemma word_date_in_text: "str_includes (p @ txt_not_a_date) word_date"
  by (rule str_includes_append) (simp add: txt_not_a_date_def word_date_def)

lemma convertDataType_failure:
  assumes "convertDataType rt v dt = Inl e"
  shows "v \<noteq> Primitive JNull \<and> v \<noteq> Primitive JUndefined \<and> dt \<noteq> DString
       \<and> error_message e = [0x27] @ js_String rt v
            @ (if dt = DNumber then txt_not_a_number else txt_not_a_date)"
  using assms
  by (auto simp: convertDataType_def Let_def split: if_splits dataType.splits option.splits)

lemma convertDataType_message:
  assumes "convertDataType rt v dt = Inl e"
  shows "str_includes (error_message e) (js_String rt v)
       \<and> str_includes (error_message e) (typeNoun dt)"
proof -
  from convertDataType_failure [OF assms]
  have m: "error_message e = [0x27] @ js_String rt v
            @ (if dt = DNumber then txt_not_a_number else txt_not_a_date)"
    by simp
  have "str_includes (error_message e) (js_String rt v)"
    unfolding m by (rule str_includes_middle)
  moreover have "str_includes (error_message e) (typeNoun dt)"
    unfolding m typeNoun_def
    using word_number_in_text [of "[0x27] @ js_String rt v"]
      word_date_in_text [of "[0x27] @ js_String rt v"] by simp
  ultimately show ?thesis by simp
qed

lemma columnErrors_failure:
  assumes "convertDataType rt (resolveValue rt typ r mp) (dataType mp) = Inl e"
  shows "columnErrors rt typ r i mp =
           [\<lparr>row = i + 1,
             message = txt_field @ name mp @ txt_conversion_error @ error_message e\<rparr>]"
  using assms convertDataType_failure [OF assms]
  by (simp add: columnErrors_def mapColumn_def Let_def)

lemma concat_without:
  "f x = [] \<Longrightarrow> concat (map f xs) = concat (map f (filter (\<lambda>y. y \<noteq> x) xs))"
  by (induction xs) auto

lemma tabular_failure:
  assumes path: "\<not> onPdfPath fd t"
    and i: "skipRows t \<le> i" "i < length (rows fd)"
    and mp: "mp \<in> set (columns t)"
    and conv: "convertDataType rt (resolveValue rt (md_type (metadata fd)) (rows fd ! i) mp)
                 (dataType mp) = Inl e"
  shows "\<exists>result. applyTemplate rt fd t = Inr result
           \<and> (\<exists>entry \<in> set (errorsOfRow result (i + 1)).
                 str_includes (message entry)
                   (js_String rt (resolveValue rt (md_type (metadata fd)) (rows fd ! i) mp))
                 \<and> str_includes (message entry) (typeNoun (dataType mp)))
           \<and> r_rows result =
               concat (map (\<lambda>n. if errorsOfRow result n = []
                                 then [recordOfRow rt fd t n] else [])
                           (filter (\<lambda>n. n \<noteq> i + 1) (rowNumbers fd t)))"
proof -
  define result where "result = applyTabular rt fd t"
  define entry where "entry =
     \<lparr>row = i + 1, message = txt_field @ name mp @ txt_conversion_error @ error_message e\<rparr>"
  have r: "applyTemplate rt fd t = Inr result"
    using path by (simp add: result_def applyTemplate_tabular)
  from i have ii: "i \<in> set [skipRows t ..< length (rows fd)]" by simp
  have er: "errorsOfRow result (i + 1) = fst (snd (tabularRow rt fd t i))"
    using errorsOfRow_tabular [OF ii, of rt] by (simp add: result_def)
  have "entry \<in> set (columnErrors rt (md_type (metadata fd)) (rows fd ! i) i mp)"
    unfolding columnErrors_failure [OF conv] entry_def by simp
  with mp have "entry \<in> set (fst (snd (tabularRow rt fd t i)))"
    by (auto simp: tabularRow_eq)
  then have 1: "entry \<in> set (errorsOfRow result (i + 1))" by (simp only: er)
  from convertDataType_message [OF conv]
  have 2: "str_includes (message entry)
             (js_String rt (resolveValue rt (md_type (metadata fd)) (rows fd ! i) mp))"
    and 3: "str_includes (message entry) (typeNoun (dataType mp))"
    using str_includes_append [of "error_message e" _ "txt_field @ name mp @ txt_conversion_error"]
    by (simp_all add: entry_def)
  from 1 have "(if errorsOfRow result (i + 1) = []
                 then [recordOfRow rt fd t (i + 1)] else []) = []" by auto
  from concat_without [of "\<lambda>n. if errorsOfRow result n = []
                                 then [recordOfRow rt fd t n] else []" "i + 1", OF this]
  have 4: "r_rows result =
               concat (map (\<lambda>n. if errorsOfRow result n = []
                                 then [recordOfRow rt fd t n] else [])
                           (filter (\<lambda>n. n \<noteq> i + 1) (rowNumbers fd t)))"
    using applyTabular_rows [of rt fd t] path
    by (simp add: result_def rowNumbers_def recordOfRow_def cong: if_cong)
  from r 1 2 3 4 show ?thesis by blast
qed

lemma abc_is_not_a_number:
  assumes "typ \<noteq> Excel" "props obj (sourceColumn mp) = Some (JStr (ustr ''abc''))"
    "dataType mp = DNumber" "StringToNumber rt (ustr ''abc'') = NaN"
  shows "resolveValue rt typ (RecRow obj) mp = Primitive (JStr (ustr ''abc''))"
    and "convertDataType rt (resolveValue rt typ (RecRow obj) mp) (dataType mp)
           = Inl (Error ([0x27] @ ustr ''abc'' @ txt_not_a_number))"
proof -
  show v: "resolveValue rt typ (RecRow obj) mp = Primitive (JStr (ustr ''abc''))"
    using assms(1,2) by (simp add: resolveValue_def getProp_def ustr_def)
  show "convertDataType rt (resolveValue rt typ (RecRow obj) mp) (dataType mp)
           = Inl (Error ([0x27] @ ustr ''abc'' @ txt_not_a_number))"
    unfolding v using assms(3,4) by (simp add: convertDataType_def)
qed

subsection \<open>Coercion failures on the free-text branch\<close>

text \<open>
  C3. A coercion failure on the free-text branch is not collected: the exception of
  \<^verbatim>\<open>convertDataType\<close> leaves \<^verbatim>\<open>applyPdfTemplate\<close> and \<^verbatim>\<open>applyTemplate\<close> throws, for the
  text \<^verbatim>\<open>Total: abc\<close> and a required number field with the pattern \<^verbatim>\<open>Total: (.+)\<close>.
\<close>

theorem free_text_coercion_failure_is_thrown:
  "applyTemplate exampleRuntime (textDoc ''Total: abc'') totalTemplate =
     Inl (Error (txt_template_error @ [0x27] @ ustr ''abc'' @ txt_not_a_number))"
  by (simp add: engine_defs example_defs ustr_def)

lemma free_text_number_is_mapped:
  "applyTemplate exampleRuntime (textDoc ''Total: 4200'') totalTemplate =
     Inr \<lparr>r_headers = [ustr ''total''],
          r_rows = [plain [ustr ''total'' \<mapsto> JNum (Fin 4200)]],
          totalRows = 1, mappedRows = 1, errorRows = 0, errors = []\<rparr>"
  by (simp add: engine_defs example_defs ustr_def)

subsection \<open>The message of a coercion failure\<close>

text \<open>
  C8, as the code has it. The message of a coercion failure holds the raw value, as
  \<^verbatim>\<open>String(value)\<close> renders it, and the Korean noun of the target type (the one for
  "number" or the one for "date"). When a field of a row of the tabular loop fails to
  convert, \<^verbatim>\<open>applyTemplate\<close> returns a result that has an entry for the row, numbered
  \<open>i + 1\<close>, whose message holds both, and whose rows are those of the other rows only. In
  particular this is so for a row of a delimited-text document that has \<^verbatim>\<open>abc\<close> under the
  column of a number field (\<^verbatim>\<open>Number('abc')\<close> being \<^verbatim>\<open>NaN\<close>): the row is excluded and the
  entry holds \<^verbatim>\<open>abc\<close> and the noun for "number".
\<close>

theorem coercion_failure_message:
  "(\<forall>value dt e. convertDataType rt value dt = Inl e \<longrightarrow>
       str_includes (error_message e) (js_String rt value)
       \<and> str_includes (error_message e) (typeNoun dt))
   \<and> (\<forall>(fileData::ParsedFileData) (template::TemplateMappingData) i (mapping::columnMapping) e.
         \<not> onPdfPath fileData template
         \<and> skipRows template \<le> i \<and> i < length (rows fileData)
         \<and> mapping \<in> set (columns template)
         \<and> convertDataType rt
              (resolveValue rt (md_type (metadata fileData)) (rows fileData ! i) mapping)
              (dataType mapping) = Inl e \<longrightarrow>
         (\<exists>result. applyTemplate rt fileData template = Inr result
            \<and> (\<exists>entry \<in> set (errorsOfRow result (i + 1)).
                  str_includes (message entry)
                    (js_String rt
                       (resolveValue rt (md_type (metadata fileData)) (rows fileData ! i) mapping))
                  \<and> str_includes (message entry) (typeNoun (dataType mapping)))
            \<and> r_rows result =
                concat (map (\<lambda>n. if errorsOfRow result n = []
                                  then [recordOfRow rt fileData template n] else [])
                            (filter (\<lambda>n. n \<noteq> i + 1) (rowNumbers fileData template)))))
   \<and> (\<forall>(fileData::ParsedFileData) (template::TemplateMappingData) i (mapping::columnMapping)
         (obj::jsobject).
         md_type (metadata fileData) = Csv
         \<and> skipRows template \<le> i \<and> i < length (rows fileData)
         \<and> rows fileData ! i = RecRow obj
         \<and> props obj (sourceColumn mapping) = Some (JStr (ustr ''abc''))
         \<and> mapping \<in> set (columns template) \<and> dataType mapping = DNumber
         \<and> StringToNumber rt (ustr ''abc'') = NaN \<longrightarrow>
         (\<exists>result. applyTemplate rt fileData template = Inr result
            \<and> (\<exists>entry \<in> set (errorsOfRow result (i + 1)).
                  str_includes (message entry) (ustr ''abc'')
                  \<and> str_includes (message entry) word_number)
            \<and> r_rows result =
                concat (map (\<lambda>n. if errorsOfRow result n = []
                                  then [recordOfRow rt fileData template n] else [])
                            (filter (\<lambda>n. n \<noteq> i + 1) (rowNumbers fileData template)))))"
proof (intro conjI allI impI)
  fix "value" dt e
  assume "convertDataType rt value dt = Inl e"
  from convertDataType_message [OF this]
  show "str_includes (error_message e) (js_String rt value)"
    and "str_includes (error_message e) (typeNoun dt)" by simp_all
next
  fix fileData :: ParsedFileData and template :: TemplateMappingData and i
    and mapping :: columnMapping and e
  assume a: "\<not> onPdfPath fileData template
         \<and> skipRows template \<le> i \<and> i < length (rows fileData)
         \<and> mapping \<in> set (columns template)
         \<and> convertDataType rt
              (resolveValue rt (md_type (metadata fileData)) (rows fileData ! i) mapping)
              (dataType mapping) = Inl e"
  then show "\<exists>result. applyTemplate rt fileData template = Inr result
            \<and> (\<exists>entry \<in> set (errorsOfRow result (i + 1)).
                  str_includes (message entry)
                    (js_String rt
                       (resolveValue rt (md_type (metadata fileData)) (rows fileData ! i) mapping))
                  \<and> str_includes (message entry) (typeNoun (dataType mapping)))
            \<and> r_rows result =
                concat (map (\<lambda>n. if errorsOfRow result n = []
                                  then [recordOfRow rt fileData template n] else [])
                            (filter (\<lambda>n. n \<noteq> i + 1) (rowNumbers fileData template)))"
    by (intro tabular_failure) simp_all
next
  fix fileData :: ParsedFileData and template :: TemplateMappingData and i
    and mapping :: columnMapping and obj :: jsobject
  assume a: "md_type (metadata fileData) = Csv
         \<and> skipRows template \<le> i \<and> i < length (rows fileData)
         \<and> rows fileData ! i = RecRow obj
         \<and> props obj (sourceColumn mapping) = Some (JStr (ustr ''abc''))
         \<and> mapping \<in> set (columns template) \<and> dataType mapping = DNumber
         \<and> StringToNumber rt (ustr ''abc'') = NaN"
  then have path: "\<not> onPdfPath fileData template" by (simp add: onPdfPath_def)
  from a have t: "md_type (metadata fileData) \<noteq> Excel" by simp
  from a abc_is_not_a_number [OF t, of obj mapping rt]
  have v: "resolveValue rt (md_type (metadata fileData)) (rows fileData ! i) mapping
             = Primitive (JStr (ustr ''abc''))"
    and c: "convertDataType rt
              (resolveValue rt (md_type (metadata fileData)) (rows fileData ! i) mapping)
              (dataType mapping) = Inl (Error ([0x27] @ ustr ''abc'' @ txt_not_a_number))"
    by simp_all
  from a have i: "skipRows template \<le> i" "i < length (rows fileData)"
    and m: "mapping \<in> set (columns template)" and d: "dataType mapping = DNumber" by simp_all
  from tabular_failure [OF path i m c]
  show "\<exists>result. applyTemplate rt fileData template = Inr result
            \<and> (\<exists>entry \<in> set (errorsOfRow result (i + 1)).
                  str_includes (message entry) (ustr ''abc'')
                  \<and> str_includes (message entry) word_number)
            \<and> r_rows result =
                concat (map (\<lambda>n. if errorsOfRow result n = []
                                  then [recordOfRow rt fileData template n] else [])
                            (filter (\<lambda>n. n \<noteq> i + 1) (rowNumbers fileData template)))"
    by (simp add: v d typeNoun_def)
qed

lemma abc_result:
  "applyTemplate exampleRuntime (priceDoc (JStr (ustr ''abc''))) (priceTemplate Csv False DNumber) =
     Inr \<lparr>r_headers = [ustr ''price''], r_rows = [],
          totalRows = 1, mappedRows = 0, errorRows = 1,
          errors = [\<lparr>row = 1,
                     message = txt_field @ ustr ''price'' @ txt_conversion_error
                               @ [0x27] @ ustr ''abc'' @ txt_not_a_number\<rparr>]\<rparr>"
  by (simp add: engine_defs example_defs upt_rec ustr_def)

theorem coercion_failure_message_counterexample:
  "applyTemplate exampleRuntime (priceDoc (JStr (ustr ''abc''))) (priceTemplate Csv False DNumber) =
     Inr \<lparr>r_headers = [ustr ''price''], r_rows = [],
          totalRows = 1, mappedRows = 0, errorRows = 1,
          errors = [\<lparr>row = 1,
                     message = txt_field @ ustr ''price'' @ txt_conversion_error
                               @ [0x27] @ ustr ''abc'' @ txt_not_a_number\<rparr>]\<rparr>
   \<and> \<not> str_includes (txt_field @ ustr ''price'' @ txt_conversion_error
                          @ [0x27] @ ustr ''abc'' @ txt_not_a_number) (ustr ''number'')"
  using abc_result
  by (simp add: txt_field_def txt_conversion_error_def txt_not_a_number_def ustr_def)

theorem coercion_failure_message_witness:
  "md_type (metadata (priceDoc (JStr (ustr ''abc'')))) = Csv
   \<and> skipRows (priceTemplate Csv False DNumber) \<le> 0
   \<and> 0 < length (rows (priceDoc (JStr (ustr ''abc''))))
   \<and> rows (priceDoc (JStr (ustr ''abc''))) ! 0 = RecRow (plain [ustr ''price'' \<mapsto> JStr (ustr ''abc'')])
   \<and> props (plain [ustr ''price'' \<mapsto> JStr (ustr ''abc'')])
        (sourceColumn (priceColumn False DNumber)) = Some (JStr (ustr ''abc''))
   \<and> priceColumn False DNumber \<in> set (columns (priceTemplate Csv False DNumber))
   \<and> dataType (priceColumn False DNumber) = DNumber
   \<and> StringToNumber exampleRuntime (ustr ''abc'') = NaN
   \<and> (\<exists>result. applyTemplate exampleRuntime (priceDoc (JStr (ustr ''abc'')))
                   (priceTemplate Csv False DNumber) = Inr result
          \<and> (\<exists>entry \<in> set (errorsOfRow result 1).
                str_includes (message entry) (ustr ''abc'')
                \<and> str_includes (message entry) word_number)
          \<and> r_rows result = [])
   \<and> convertDataType exampleRuntime (Primitive (JStr (ustr ''abc''))) DNumber
        = Inl (Error ([0x27] @ ustr ''abc'' @ txt_not_a_number))
   \<and> str_includes ([0x27] @ ustr ''abc'' @ txt_not_a_number) (ustr ''abc'')
   \<and> str_includes ([0x27] @ ustr ''abc'' @ txt_not_a_number) word_number"
proof -
  have c: "convertDataType exampleRuntime (Primitive (JStr (ustr ''abc''))) DNumber
        = Inl (Error ([0x27] @ ustr ''abc'' @ txt_not_a_number))"
    by (simp add: convertDataType_def exampleRuntime_def exampleStringToNumber_def
          blank_def digit_def ustr_def Let_def)
  from coercion_failure_message [of exampleRuntime] c
  have m: "str_includes ([0x27] @ ustr ''abc'' @ txt_not_a_number) (ustr ''abc'')
   \<and> str_includes ([0x27] @ ustr ''abc'' @ txt_not_a_number) word_number"
    by (fastforce simp: typeNoun_def)
  have h: "md_type (metadata (priceDoc (JStr (ustr ''abc'')))) = Csv
   \<and> skipRows (priceTemplate Csv False DNumber) \<le> 0
   \<and> 0 < length (rows (priceDoc (JStr (ustr ''abc''))))
   \<and> rows (priceDoc (JStr (ustr ''abc''))) ! 0 = RecRow (plain [ustr ''price'' \<mapsto> JStr (ustr ''abc'')])
   \<and> props (plain [ustr ''price'' \<mapsto> JStr (ustr ''abc'')])
        (sourceColumn (priceColumn False DNumber)) = Some (JStr (ustr ''abc''))
   \<and> priceColumn False DNumber \<in> set (columns (priceTemplate Csv False DNumber))
   \<and> dataType (priceColumn False DNumber) = DNumber
   \<and> StringToNumber exampleRuntime (ustr ''abc'') = NaN"
    by (simp add: example_defs ustr_def)
  have n: "filter (\<lambda>n. n \<noteq> 0 + 1)
             (rowNumbers (priceDoc (JStr (ustr ''abc''))) (priceTemplate Csv False DNumber)) = []"
    by (simp add: example_defs upt_rec)
  from coercion_failure_message [of exampleRuntime] h
  have "\<exists>result. applyTemplate exampleRuntime (priceDoc (JStr (ustr ''abc'')))
                   (priceTemplate Csv False DNumber) = Inr result
          \<and> (\<exists>entry \<in> set (errorsOfRow result (0 + 1)).
                str_includes (message entry) (ustr ''abc'')
                \<and> str_includes (message entry) word_number)
          \<and> r_rows result =
              concat (map (\<lambda>n. if errorsOfRow result n = []
                   then [recordOfRow exampleRuntime (priceDoc (JStr (ustr ''abc'')))
                           (priceTemplate Csv False DNumber) n] else [])
                (filter (\<lambda>n. n \<noteq> 0 + 1)
                   (rowNumbers (priceDoc (JStr (ustr ''abc''))) (priceTemplate Csv False DNumber))))"
    by blast
  then have "\<exists>result. applyTemplate exampleRuntime (priceDoc (JStr (ustr ''abc'')))
                   (priceTemplate Csv False DNumber) = Inr result
          \<and> (\<exists>entry \<in> set (errorsOfRow result 1).
                str_includes (message entry) (ustr ''abc'')
                \<and> str_includes (message entry) word_number)
          \<and> r_rows result = []"
    unfolding n by simp
  with h c m show ?thesis by blast
qed

subsection \<open>The spreadsheet parser\<close>

lemma parseExcel_eq:
  assumes "SheetNames wb = first # others" "Sheets wb first = Some grid"
  shows "parseExcel wb fname =
           \<lparr>headers = (case grid of [] \<Rightarrow> None | h # _ \<Rightarrow> Some h),
            rows = map ArrRow (drop 1 grid),
            metadata = \<lparr>md_totalRows = int (length grid - 1), md_type = Excel,
                        sheetName = Some first, filename = fname\<rparr>\<rparr>"
  using assms by (simp add: parseExcel_def)

text \<open>
  C5, as the code has it. \<^verbatim>\<open>parseExcel\<close> reads the first sheet only. It takes the first
  row of that sheet's grid as \<^verbatim>\<open>headers\<close> (no column letters are made) and the rows after
  it as \<^verbatim>\<open>rows\<close>, so that \<^verbatim>\<open>headers\<close> followed by \<^verbatim>\<open>rows\<close> is the grid and
  \<^verbatim>\<open>totalRows\<close> counts the rows after the first; a workbook with the same first sheet is
  parsed to the same document.
\<close>

theorem parseExcel_first_sheet:
  assumes "SheetNames wb = first # others" "Sheets wb first = Some grid"
  shows "headers (parseExcel wb fname) = (case grid of [] \<Rightarrow> None | h # _ \<Rightarrow> Some h)
       \<and> rows (parseExcel wb fname) = map ArrRow (drop 1 grid)
       \<and> (case headers (parseExcel wb fname) of None \<Rightarrow> [] | Some h \<Rightarrow> [ArrRow h])
            @ rows (parseExcel wb fname) = map ArrRow grid
       \<and> md_totalRows (metadata (parseExcel wb fname)) = int (length grid - 1)
       \<and> md_type (metadata (parseExcel wb fname)) = Excel
       \<and> sheetName (metadata (parseExcel wb fname)) = Some first
       \<and> (\<forall>(wb'::workbook) others'. SheetNames wb' = first # others' \<and> Sheets wb' first = Some grid \<longrightarrow>
             parseExcel wb' fname = parseExcel wb fname)"
proof -
  note e = parseExcel_eq [OF assms, of fname]
  have 1: "headers (parseExcel wb fname) = (case grid of [] \<Rightarrow> None | h # _ \<Rightarrow> Some h)"
    and 2: "rows (parseExcel wb fname) = map ArrRow (drop 1 grid)"
    and 4: "md_totalRows (metadata (parseExcel wb fname)) = int (length grid - 1)"
    and 5: "md_type (metadata (parseExcel wb fname)) = Excel"
    and 6: "sheetName (metadata (parseExcel wb fname)) = Some first"
    by (simp_all add: e)
  have 3: "(case headers (parseExcel wb fname) of None \<Rightarrow> [] | Some h \<Rightarrow> [ArrRow h])
            @ rows (parseExcel wb fname) = map ArrRow grid"
    unfolding 1 2 by (cases grid) simp_all
  have 7: "\<forall>(wb'::workbook) others'. SheetNames wb' = first # others' \<and> Sheets wb' first = Some grid \<longrightarrow>
             parseExcel wb' fname = parseExcel wb fname"
  proof (intro allI impI)
    fix wb' :: workbook and others'
    assume "SheetNames wb' = first # others' \<and> Sheets wb' first = Some grid"
    then have "parseExcel wb' fname =
           \<lparr>headers = (case grid of [] \<Rightarrow> None | h # _ \<Rightarrow> Some h),
            rows = map ArrRow (drop 1 grid),
            metadata = \<lparr>md_totalRows = int (length grid - 1), md_type = Excel,
                        sheetName = Some first, filename = fname\<rparr>\<rparr>"
      using parseExcel_eq [of wb' first others' grid fname] by blast
    then show "parseExcel wb' fname = parseExcel wb fname" unfolding e .
  qed
  from 1 2 3 4 5 6 7 show ?thesis by blast
qed

lemma twoSheets_parsed:
  "parseExcel twoSheets (ustr ''q.xlsx'') =
     \<lparr>headers = Some [JStr (ustr ''id'')],
      rows = [ArrRow [JStr (ustr ''Q-1'')]],
      metadata = \<lparr>md_totalRows = 1, md_type = Excel,
                  sheetName = Some (ustr ''Quotes''), filename = ustr ''q.xlsx''\<rparr>\<rparr>"
  by (simp add: parseExcel_def twoSheets_def ustr_def)

theorem parseExcel_first_sheet_witness:
  "SheetNames twoSheets = ustr ''Quotes'' # [ustr ''Notes'']
   \<and> Sheets twoSheets (ustr ''Quotes'') = Some [[JStr (ustr ''id'')], [JStr (ustr ''Q-1'')]]
   \<and> headers (parseExcel twoSheets (ustr ''q.xlsx'')) = Some [JStr (ustr ''id'')]
   \<and> rows (parseExcel twoSheets (ustr ''q.xlsx'')) = [ArrRow [JStr (ustr ''Q-1'')]]
   \<and> md_totalRows (metadata (parseExcel twoSheets (ustr ''q.xlsx''))) = 1"
proof -
  have h: "SheetNames twoSheets = ustr ''Quotes'' # [ustr ''Notes'']"
    "Sheets twoSheets (ustr ''Quotes'') = Some [[JStr (ustr ''id'')], [JStr (ustr ''Q-1'')]]"
    by (simp_all add: twoSheets_def ustr_def)
  from parseExcel_first_sheet [OF h, of "ustr ''q.xlsx''"]
  have "headers (parseExcel twoSheets (ustr ''q.xlsx'')) = Some [JStr (ustr ''id'')]
      \<and> rows (parseExcel twoSheets (ustr ''q.xlsx'')) = [ArrRow [JStr (ustr ''Q-1'')]]
      \<and> md_totalRows (metadata (parseExcel twoSheets (ustr ''q.xlsx''))) = 1"
    by simp
  with h show ?thesis by blast
qed

theorem parseExcel_counterexample:
  "Sheets twoSheets (ustr ''Quotes'') = Some [[JStr (ustr ''id'')], [JStr (ustr ''Q-1'')]]
   \<and> rows (parseExcel twoSheets (ustr ''q.xlsx'')) = [ArrRow [JStr (ustr ''Q-1'')]]
   \<and> rows (parseExcel twoSheets (ustr ''q.xlsx''))
       \<noteq> map ArrRow [[JStr (ustr ''id'')], [JStr (ustr ''Q-1'')]]
   \<and> headers (parseExcel twoSheets (ustr ''q.xlsx'')) = Some [JStr (ustr ''id'')]
   \<and> headers (parseExcel twoSheets (ustr ''q.xlsx'')) \<noteq> Some [JStr (ustr ''A'')]"
proof -
  have "Sheets twoSheets (ustr ''Quotes'') = Some [[JStr (ustr ''id'')], [JStr (ustr ''Q-1'')]]"
    by (simp add: twoSheets_def ustr_def)
  moreover have "[JStr (ustr ''id'')] \<noteq> [JStr (ustr ''A'')]"
    by (simp add: ustr_def)
  ultimately show ?thesis by (simp add: twoSheets_parsed)
qed

subsection \<open>Cells of a delimited-text record\<close>

text \<open>
  C6, as the code has it. On the delimited-text path the resolved value is what the read of
  the record under the column name gives, if that is truthy, and \<^verbatim>\<open>null\<close> otherwise. The
  read gives the record's own value or, when the record has no such column, the member of
  \<^verbatim>\<open>Object.prototype\<close> of that name, if there is one. So the resolved value is \<^verbatim>\<open>null\<close>
  when the column is absent and names no inherited member, and when the value is present
  but falsy (the empty string, 0, \<^verbatim>\<open>NaN\<close>, \<^verbatim>\<open>false\<close>, \<^verbatim>\<open>null\<close>, \<^verbatim>\<open>undefined\<close>); then the
  step adds the required-field error when the field is required and no error when it is
  not.
\<close>

theorem delimited_value_resolution:
  assumes "typ \<noteq> Excel"
  shows "resolveValue rt typ (RecRow obj) mapping =
           (case props obj (sourceColumn mapping) of
              Some v \<Rightarrow> if truthy (Primitive v) then Primitive v else Primitive JNull
            | None \<Rightarrow>
                if hasProto obj \<and> sourceColumn mapping = protoKey
                then Builtin ObjectPrototype
                else if hasProto obj \<and> sourceColumn mapping \<in> set (ObjectPrototypeNames rt)
                then Builtin (ObjectMember (sourceColumn mapping))
                else Primitive JNull)
       \<and> (resolveValue rt typ (RecRow obj) mapping = Primitive JNull \<longrightarrow>
            columnErrors rt typ (RecRow obj) i mapping =
              (if required mapping
               then [\<lparr>row = i + 1,
                       message = txt_required_field @ name mapping @ txt_has_no_value\<rparr>]
               else []))"
proof
  show "resolveValue rt typ (RecRow obj) mapping =
           (case props obj (sourceColumn mapping) of
              Some v \<Rightarrow> if truthy (Primitive v) then Primitive v else Primitive JNull
            | None \<Rightarrow>
                if hasProto obj \<and> sourceColumn mapping = protoKey
                then Builtin ObjectPrototype
                else if hasProto obj \<and> sourceColumn mapping \<in> set (ObjectPrototypeNames rt)
                then Builtin (ObjectMember (sourceColumn mapping))
                else Primitive JNull)"
    using assms
    by (simp add: resolveValue_def getProp_def fromObjectPrototype_def Let_def
             split: option.splits)
  show "resolveValue rt typ (RecRow obj) mapping = Primitive JNull \<longrightarrow>
            columnErrors rt typ (RecRow obj) i mapping =
              (if required mapping
               then [\<lparr>row = i + 1,
                       message = txt_required_field @ name mapping @ txt_has_no_value\<rparr>]
               else [])"
    by (simp add: columnErrors_def mapColumn_def convertDataType_def Let_def)
qed

theorem delimited_value_resolution_witness:
  "Csv \<noteq> Excel
   \<and> resolveValue exampleRuntime Csv (priceRow (JStr [])) (priceColumn True DString)
       = Primitive JNull
   \<and> resolveValue exampleRuntime Csv (priceRow (JStr (ustr ''0''))) (priceColumn True DString)
       = Primitive (JStr (ustr ''0''))
   \<and> columnErrors exampleRuntime Csv (priceRow (JStr [])) 0 (priceColumn True DString) =
        [\<lparr>row = 1, message = txt_required_field @ ustr ''price'' @ txt_has_no_value\<rparr>]"
proof -
  have h: "Csv \<noteq> Excel" by simp
  have k: "sourceColumn (priceColumn True DString) = ustr ''price''"
    "name (priceColumn True DString) = ustr ''price''" "required (priceColumn True DString)"
    by (simp_all add: priceColumn_def aColumn_def)
  from delimited_value_resolution [OF h, of exampleRuntime "plain [ustr ''price'' \<mapsto> JStr []]"
      "priceColumn True DString" 0]
    delimited_value_resolution [OF h, of exampleRuntime
      "plain [ustr ''price'' \<mapsto> JStr (ustr ''0'')]" "priceColumn True DString" 0]
  show ?thesis by (simp add: k priceRow_def plain_def ustr_def)
qed

theorem empty_cell_counterexample:
  "resolveValue exampleRuntime Csv (priceRow (JStr [])) (priceColumn True DString)
     = Primitive JNull
   \<and> applyTemplate exampleRuntime (priceDoc (JStr [])) (priceTemplate Csv True DString) =
       Inr \<lparr>r_headers = [ustr ''price''], r_rows = [],
            totalRows = 1, mappedRows = 0, errorRows = 1,
            errors = [\<lparr>row = 1,
                       message = txt_required_field @ ustr ''price'' @ txt_has_no_value\<rparr>]\<rparr>"
  by (simp add: engine_defs example_defs upt_rec ustr_def)

subsection \<open>Inherited members and the prototype setter, on examples\<close>

text \<open>
  A delimited-text record without a column \<^verbatim>\<open>constructor\<close> still gives a value to a field
  read from that column, the function \<^verbatim>\<open>Object\<close>; and a field named \<^verbatim>\<open>__proto__\<close> is not
  stored in the mapped record.
\<close>

lemma inherited_member_is_read:
  "applyTemplate exampleRuntime bareDoc
     (aTemplate Csv 0 [aColumn ''maker'' ''constructor'' True DString]) =
       Inr \<lparr>r_headers = [ustr ''maker''],
            r_rows = [plain [ustr ''maker'' \<mapsto> JStr (ustr ''function Object() { [native code] }'')]],
            totalRows = 1, mappedRows = 1, errorRows = 0, errors = []\<rparr>"
  by (simp add: engine_defs example_defs upt_rec ustr_def)

lemma proto_field_is_not_stored:
  "applyTemplate exampleRuntime (priceDoc (JStr (ustr ''12'')))
     (aTemplate Csv 0 [aColumn ''__proto__'' ''price'' True DString]) =
       Inr \<lparr>r_headers = [ustr ''__proto__''],
            r_rows = [plain Map.empty],
            totalRows = 1, mappedRows = 1, errorRows = 0, errors = []\<rparr>"
  by (simp add: engine_defs example_defs upt_rec ustr_def)

end
